theory Spec2Isabelle
  imports Main
begin

section \<open>The MDM Apple profile store of the datastore (package mysql)\<close>

text \<open>
  The datastore functions are SQL statements run against MySQL tables. A table is the list
  of its rows, a row is a record whose nullable columns have an option type
  (\<open>None\<close> is SQL's NULL), and every statement is written out as the list function it
  computes. SQL conditions are three-valued: a condition is a \<open>bool option\<close>, where
  \<open>None\<close> is UNKNOWN, and a WHERE or ON clause keeps a row only when its condition is
  \<open>Some True\<close>. Strings are compared byte for byte.
\<close>

subsection \<open>Tables\<close>

type_synonym bytes = string

datatype MDMAppleOperationType = MDMAppleOperationTypeInstall | MDMAppleOperationTypeRemove

datatype MDMAppleDeliveryStatus =
  MDMAppleDeliveryFailed | MDMAppleDeliveryVerifying | MDMAppleDeliveryPending

text \<open>Table \<open>hosts\<close> (alias \<open>h\<close>): \<open>team_id\<close> is NULL for a host in no team.\<close>

record host =
  h_id :: nat
  h_uuid :: string
  h_team_id :: "nat option"
  h_platform :: string

text \<open>Table \<open>nano_enrollments\<close> (alias \<open>ne\<close>).\<close>

record nano_enrollment =
  ne_id :: string
  ne_device_id :: string
  ne_type :: string
  ne_enabled :: bool

text \<open>
  Table \<open>mdm_apple_configuration_profiles\<close> (alias \<open>macp\<close>): \<open>team_id\<close> is 0 for the
  profiles of hosts in no team. Its primary key is \<open>profile_id\<close> (auto-increment); its two
  unique indexes are those \<open>formatErrorDuplicateConfigProfile\<close> names:
  \<open>idx_mdm_apple_config_prof_team_identifier\<close> on (team_id, identifier) and
  \<open>idx_mdm_apple_config_prof_team_name\<close> on (team_id, name).
\<close>

record mdm_apple_configuration_profile =
  macp_profile_id :: nat
  macp_team_id :: nat
  macp_identifier :: string
  macp_name :: string
  macp_mobileconfig :: bytes
  macp_checksum :: bytes

text \<open>
  Table \<open>host_mdm_apple_profiles\<close> (alias \<open>hmap\<close>): the statements test \<open>status\<close> and
  \<open>operation_type\<close> for NULL, so both are nullable. Its key is (host_uuid, profile_id), the
  pair every join of the file matches on.
\<close>

record host_mdm_apple_profile =
  hmap_profile_id :: nat
  hmap_profile_identifier :: string
  hmap_profile_name :: string
  hmap_host_uuid :: string
  hmap_status :: "MDMAppleDeliveryStatus option"
  hmap_operation_type :: "MDMAppleOperationType option"
  hmap_detail :: "string option"
  hmap_command_uuid :: string
  hmap_checksum :: bytes

text \<open>Tables \<open>host_disk_encryption_keys\<close> and \<open>host_mdm\<close>, both keyed by \<open>host_id\<close>.\<close>

record host_disk_encryption_key =
  hdek_host_id :: nat
  hdek_base64_encrypted :: string
  hdek_decryptable :: "bool option"

record host_mdm_row =
  hmdm_host_id :: nat
  hmdm_enrolled :: bool

text \<open>
  The database the \<open>Datastore\<close> reads and writes. \<open>macp_auto_increment\<close> is the next value
  of the auto-increment column \<open>profile_id\<close>.
\<close>

record Datastore =
  hosts :: "host list"
  nano_enrollments :: "nano_enrollment list"
  mdm_apple_configuration_profiles :: "mdm_apple_configuration_profile list"
  macp_auto_increment :: nat
  host_mdm_apple_profiles :: "host_mdm_apple_profile list"
  host_disk_encryption_keys :: "host_disk_encryption_key list"
  host_mdm :: "host_mdm_row list"

subsection \<open>Go structs of package fleet\<close>

text \<open>\<open>fleet.MDMAppleProfilePayload\<close>, the row type of the two list queries.\<close>

record MDMAppleProfilePayload =
  pp_ProfileID :: nat
  pp_ProfileIdentifier :: string
  pp_ProfileName :: string
  pp_HostUUID :: string
  pp_Checksum :: bytes

text \<open>\<open>fleet.MDMAppleConfigProfile\<close>: a nil \<open>TeamID\<close> stands for no team.\<close>

record MDMAppleConfigProfile =
  cp_ProfileID :: nat
  cp_TeamID :: "nat option"
  cp_Identifier :: string
  cp_Name :: string
  cp_Mobileconfig :: bytes

text \<open>\<open>fleet.MDMAppleBulkUpsertHostProfilePayload\<close>.\<close>

record MDMAppleBulkUpsertHostProfilePayload =
  bp_ProfileID :: nat
  bp_ProfileIdentifier :: string
  bp_ProfileName :: string
  bp_HostUUID :: string
  bp_CommandUUID :: string
  bp_OperationType :: MDMAppleOperationType
  bp_Status :: "MDMAppleDeliveryStatus option"
  bp_Checksum :: bytes

text \<open>\<open>fleet.HostMDMAppleProfile\<close>, the result the device reported for one command.\<close>

record HostMDMAppleProfile =
  hp_HostUUID :: string
  hp_CommandUUID :: string
  hp_ProfileID :: nat
  hp_Name :: string
  hp_Identifier :: string
  hp_Status :: "MDMAppleDeliveryStatus option"
  hp_OperationType :: MDMAppleOperationType
  hp_Detail :: string

subsection \<open>Errors and transactions\<close>

text \<open>
  The error values of the file: MySQL's duplicate-entry error (1062) with the name of the
  violated index, \<open>sql.ErrNoRows\<close>, the error of \<open>sqlx.In\<close> on an empty slice, the
  datastore's \<open>existsError\<close> (ResourceType, Identifier, TeamID) and \<open>notFoundError\<close>
  (ResourceType), and \<open>errors.New\<close>.
\<close>

datatype error =
    ErrDuplicateEntry string
  | ErrNoRows
  | ErrSqlxInEmptySlice
  | existsError string string "nat option"
  | notFoundError string
  | errorString string

definition isDuplicate :: "error \<Rightarrow> bool" where
  "isDuplicate err = (case err of ErrDuplicateEntry _ \<Rightarrow> True | _ \<Rightarrow> False)"

definition IsNotFound :: "error \<Rightarrow> bool" where
  "IsNotFound err = (case err of notFoundError _ \<Rightarrow> True | _ \<Rightarrow> False)"

definition notFound :: "string \<Rightarrow> error" where
  "notFound kind = notFoundError kind"

text \<open>
  Modelled from the spec: \<open>withTx\<close> and \<open>withRetryTxx\<close> are defined outside the files at
  hand. "All bulk operations must be all-or-nothing (transactional)": the function runs on
  the database, its writes are committed when it returns nil and rolled back when it returns
  an error. \<open>withRetryTxx\<close> runs the function again on a transient conflict; none of the
  errors above is transient, so the outcome of the first run stands.
\<close>

definition withTx ::
  "(Datastore \<Rightarrow> error + Datastore) \<Rightarrow> Datastore \<Rightarrow> error option \<times> Datastore" where
  "withTx fn db = (case fn db of Inl err \<Rightarrow> (Some err, db) | Inr tx \<Rightarrow> (None, tx))"

definition withRetryTxx ::
  "(Datastore \<Rightarrow> error + Datastore) \<Rightarrow> Datastore \<Rightarrow> error option \<times> Datastore" where
  "withRetryTxx fn db = withTx fn db"

subsection \<open>Three-valued SQL conditions and joins\<close>

definition sql_eq :: "'a option \<Rightarrow> 'a option \<Rightarrow> bool option" where
  "sql_eq a b = (case a of None \<Rightarrow> None
                 | Some x \<Rightarrow> (case b of None \<Rightarrow> None | Some y \<Rightarrow> Some (x = y)))"

definition sql_neq :: "'a option \<Rightarrow> 'a option \<Rightarrow> bool option" where
  "sql_neq a b = (case a of None \<Rightarrow> None
                  | Some x \<Rightarrow> (case b of None \<Rightarrow> None | Some y \<Rightarrow> Some (x \<noteq> y)))"

definition sql_is_null :: "'a option \<Rightarrow> bool option" where
  "sql_is_null a = Some (a = None)"

definition sql_is_not_null :: "'a option \<Rightarrow> bool option" where
  "sql_is_not_null a = Some (a \<noteq> None)"

fun sql_and :: "bool option \<Rightarrow> bool option \<Rightarrow> bool option" where
  "sql_and (Some False) _ = Some False"
| "sql_and _ (Some False) = Some False"
| "sql_and (Some True) (Some True) = Some True"
| "sql_and _ _ = None"

fun sql_or :: "bool option \<Rightarrow> bool option \<Rightarrow> bool option" where
  "sql_or (Some True) _ = Some True"
| "sql_or _ (Some True) = Some True"
| "sql_or (Some False) (Some False) = Some False"
| "sql_or _ _ = None"

definition sql_true :: "bool option \<Rightarrow> bool" where
  "sql_true c = (c = Some True)"

text \<open>\<open>SELECT ... FROM t WHERE c\<close>.\<close>

definition sql_where :: "('a \<Rightarrow> bool option) \<Rightarrow> 'a list \<Rightarrow> 'a list" where
  "sql_where c rows = filter (\<lambda>r. sql_true (c r)) rows"

text \<open>\<open>a JOIN b ON c\<close>.\<close>

definition sql_join :: "('a \<Rightarrow> 'b \<Rightarrow> bool option) \<Rightarrow> 'a list \<Rightarrow> 'b list \<Rightarrow> ('a \<times> 'b) list" where
  "sql_join on as bs = concat (map (\<lambda>a. map (Pair a) (sql_where (on a) bs)) as)"

text \<open>
  \<open>a LEFT JOIN b ON c\<close>: a row of \<open>a\<close> that no row of \<open>b\<close> matches comes out once, with
  every column of \<open>b\<close> NULL (the row \<open>None\<close>).
\<close>

definition sql_left_join ::
  "('a \<Rightarrow> 'b \<Rightarrow> bool option) \<Rightarrow> 'a list \<Rightarrow> 'b list \<Rightarrow> ('a \<times> 'b option) list" where
  "sql_left_join on as bs =
     concat (map (\<lambda>a. case sql_where (on a) bs of
                         [] \<Rightarrow> [(a, None)]
                       | ms \<Rightarrow> map (\<lambda>b. (a, Some b)) ms) as)"

text \<open>\<open>a RIGHT JOIN b ON c\<close>: the same with the sides exchanged.\<close>

definition sql_right_join ::
  "('a \<Rightarrow> 'b \<Rightarrow> bool option) \<Rightarrow> 'a list \<Rightarrow> 'b list \<Rightarrow> ('a option \<times> 'b) list" where
  "sql_right_join on as bs =
     concat (map (\<lambda>b. case sql_where (\<lambda>a. on a b) as of
                         [] \<Rightarrow> [(None, b)]
                       | ms \<Rightarrow> map (\<lambda>a. (Some a, b)) ms) bs)"

subsection \<open>The desired state and the two list queries\<close>

text \<open>
  The subquery \<open>ds\<close> of both list queries:
  \<^verbatim>\<open>FROM mdm_apple_configuration_profiles macp
  JOIN hosts h ON h.team_id = macp.team_id OR (h.team_id IS NULL AND macp.team_id = 0)
  JOIN nano_enrollments ne ON ne.device_id = h.uuid
  WHERE h.platform = 'darwin' AND ne.enabled = 1 AND ne.type = 'Device'\<close>
\<close>

definition ds_on_hosts :: "mdm_apple_configuration_profile \<Rightarrow> host \<Rightarrow> bool option" where
  "ds_on_hosts macp h =
     sql_or (sql_eq (h_team_id h) (Some (macp_team_id macp)))
            (sql_and (sql_is_null (h_team_id h)) (sql_eq (Some (macp_team_id macp)) (Some 0)))"

definition ds_on_enrollments ::
  "mdm_apple_configuration_profile \<times> host \<Rightarrow> nano_enrollment \<Rightarrow> bool option" where
  "ds_on_enrollments mh ne = sql_eq (Some (ne_device_id ne)) (Some (h_uuid (snd mh)))"

definition ds_where ::
  "(mdm_apple_configuration_profile \<times> host) \<times> nano_enrollment \<Rightarrow> bool option" where
  "ds_where mhn =
     sql_and (sql_and (sql_eq (Some (h_platform (snd (fst mhn)))) (Some ''darwin''))
                      (sql_eq (Some (ne_enabled (snd mhn))) (Some True)))
             (sql_eq (Some (ne_type (snd mhn))) (Some ''Device''))"

definition ds_select ::
  "(mdm_apple_configuration_profile \<times> host) \<times> nano_enrollment \<Rightarrow> MDMAppleProfilePayload" where
  "ds_select mhn =
     \<lparr> pp_ProfileID = macp_profile_id (fst (fst mhn)),
       pp_ProfileIdentifier = macp_identifier (fst (fst mhn)),
       pp_ProfileName = macp_name (fst (fst mhn)),
       pp_HostUUID = h_uuid (snd (fst mhn)),
       pp_Checksum = macp_checksum (fst (fst mhn)) \<rparr>"

definition desired_state :: "Datastore \<Rightarrow> MDMAppleProfilePayload list" where
  "desired_state db =
     map ds_select
       (sql_where ds_where
          (sql_join ds_on_enrollments
             (sql_join ds_on_hosts (mdm_apple_configuration_profiles db) (hosts db))
             (nano_enrollments db)))"

text \<open>
  \<open>ON hmap.profile_id = ds.profile_id AND hmap.host_uuid = ds.host_uuid\<close>, the condition of
  the LEFT JOIN of \<open>ListMDMAppleProfilesToInstall\<close> and of the RIGHT JOIN of
  \<open>ListMDMAppleProfilesToRemove\<close>.
\<close>

definition hmap_on :: "MDMAppleProfilePayload \<Rightarrow> host_mdm_apple_profile \<Rightarrow> bool option" where
  "hmap_on ds hmap =
     sql_and (sql_eq (Some (hmap_profile_id hmap)) (Some (pp_ProfileID ds)))
             (sql_eq (Some (hmap_host_uuid hmap)) (Some (pp_HostUUID ds)))"

text \<open>
  The WHERE clause of \<open>ListMDMAppleProfilesToInstall\<close>, on a row of the LEFT JOIN:
  \<^verbatim>\<open>( hmap.checksum != ds.checksum ) OR
  ( hmap.profile_id IS NULL AND hmap.host_uuid IS NULL ) OR
  ( hmap.host_uuid IS NOT NULL AND ( hmap.operation_type = ? OR hmap.operation_type IS NULL ) ) OR
  ( hmap.host_uuid IS NOT NULL AND hmap.operation_type = ? AND hmap.status IS NULL )\<close>
  with the parameters \<open>MDMAppleOperationTypeRemove\<close> and \<open>MDMAppleOperationTypeInstall\<close>.
\<close>

definition install_where ::
  "MDMAppleProfilePayload \<times> host_mdm_apple_profile option \<Rightarrow> bool option" where
  "install_where j =
     (let ds = fst j; hmap = snd j in
      sql_or
        (sql_or
           (sql_or
              (sql_neq (map_option hmap_checksum hmap) (Some (pp_Checksum ds)))
              (sql_and (sql_is_null (map_option hmap_profile_id hmap))
                       (sql_is_null (map_option hmap_host_uuid hmap))))
           (sql_and (sql_is_not_null (map_option hmap_host_uuid hmap))
                    (sql_or (sql_eq (Option.bind hmap hmap_operation_type)
                                    (Some MDMAppleOperationTypeRemove))
                            (sql_is_null (Option.bind hmap hmap_operation_type)))))
        (sql_and
           (sql_and (sql_is_not_null (map_option hmap_host_uuid hmap))
                    (sql_eq (Option.bind hmap hmap_operation_type)
                            (Some MDMAppleOperationTypeInstall)))
           (sql_is_null (Option.bind hmap hmap_status))))"

definition ListMDMAppleProfilesToInstall :: "Datastore \<Rightarrow> MDMAppleProfilePayload list" where
  "ListMDMAppleProfilesToInstall db =
     map fst
       (sql_where install_where
          (sql_left_join hmap_on (desired_state db) (host_mdm_apple_profiles db)))"

text \<open>
  The WHERE clause of \<open>ListMDMAppleProfilesToRemove\<close>, on a row of the RIGHT JOIN:
  \<^verbatim>\<open>ds.profile_id IS NULL AND ds.uuid IS NULL
  AND ( hmap.operation_type IS NULL OR hmap.operation_type != ? OR hmap.status IS NULL )\<close>
  with the parameter \<open>MDMAppleOperationTypeRemove\<close>.
\<close>

definition remove_where ::
  "MDMAppleProfilePayload option \<times> host_mdm_apple_profile \<Rightarrow> bool option" where
  "remove_where j =
     (let ds = fst j; hmap = snd j in
      sql_and
        (sql_and (sql_is_null (map_option pp_ProfileID ds))
                 (sql_is_null (map_option pp_HostUUID ds)))
        (sql_or
           (sql_or (sql_is_null (hmap_operation_type hmap))
                   (sql_neq (hmap_operation_type hmap) (Some MDMAppleOperationTypeRemove)))
           (sql_is_null (hmap_status hmap))))"

definition hmap_select :: "host_mdm_apple_profile \<Rightarrow> MDMAppleProfilePayload" where
  "hmap_select hmap =
     \<lparr> pp_ProfileID = hmap_profile_id hmap,
       pp_ProfileIdentifier = hmap_profile_identifier hmap,
       pp_ProfileName = hmap_profile_name hmap,
       pp_HostUUID = hmap_host_uuid hmap,
       pp_Checksum = hmap_checksum hmap \<rparr>"

definition ListMDMAppleProfilesToRemove :: "Datastore \<Rightarrow> MDMAppleProfilePayload list" where
  "ListMDMAppleProfilesToRemove db =
     map (hmap_select \<circ> snd)
       (sql_where remove_where
          (sql_right_join hmap_on (desired_state db) (host_mdm_apple_profiles db)))"

subsection \<open>Configuration profiles\<close>

text \<open>
  \<open>INSERT INTO mdm_apple_configuration_profiles (team_id, identifier, name, mobileconfig,
  checksum) VALUES (?, ?, ?, ?, UNHEX(MD5(mobileconfig)))\<close>: the insert fails with a
  duplicate-entry error naming the unique index the new row violates, the index on
  (team_id, identifier) being checked before the one on (team_id, name). \<open>md5\<close> is MySQL's
  \<open>UNHEX(MD5(_))\<close>, a parameter of the model.
\<close>

definition macp_insert ::
  "(bytes \<Rightarrow> bytes) \<Rightarrow> nat \<Rightarrow> string \<Rightarrow> string \<Rightarrow> bytes \<Rightarrow> Datastore \<Rightarrow> error + Datastore" where
  "macp_insert md5 teamID ident nm mc db =
     (let rows = mdm_apple_configuration_profiles db in
      if \<exists>r\<in>set rows. macp_team_id r = teamID \<and> macp_identifier r = ident
      then Inl (ErrDuplicateEntry ''idx_mdm_apple_config_prof_team_identifier'')
      else if \<exists>r\<in>set rows. macp_team_id r = teamID \<and> macp_name r = nm
      then Inl (ErrDuplicateEntry ''idx_mdm_apple_config_prof_team_name'')
      else Inr (db \<lparr> mdm_apple_configuration_profiles :=
                       rows @ [\<lparr> macp_profile_id = macp_auto_increment db, macp_team_id = teamID,
                                 macp_identifier = ident, macp_name = nm, macp_mobileconfig = mc,
                                 macp_checksum = md5 mc \<rparr>],
                     macp_auto_increment := Suc (macp_auto_increment db) \<rparr>))"

definition formatErrorDuplicateConfigProfile :: "error \<Rightarrow> MDMAppleConfigProfile \<Rightarrow> error" where
  "formatErrorDuplicateConfigProfile err cp =
     (case err of
        ErrDuplicateEntry idx \<Rightarrow>
          if idx = ''idx_mdm_apple_config_prof_team_identifier''
          then existsError ''MDMAppleConfigProfile.PayloadIdentifier'' (cp_Identifier cp) (cp_TeamID cp)
          else if idx = ''idx_mdm_apple_config_prof_team_name''
          then existsError ''MDMAppleConfigProfile.PayloadDisplayName'' (cp_Name cp) (cp_TeamID cp)
          else err
      | _ \<Rightarrow> err)"

definition NewMDMAppleConfigProfile ::
  "(bytes \<Rightarrow> bytes) \<Rightarrow> MDMAppleConfigProfile \<Rightarrow> Datastore
     \<Rightarrow> (error + MDMAppleConfigProfile) \<times> Datastore" where
  "NewMDMAppleConfigProfile md5 cp db =
     (let teamID = (case cp_TeamID cp of None \<Rightarrow> 0 | Some t \<Rightarrow> t) in
      case macp_insert md5 teamID (cp_Identifier cp) (cp_Name cp) (cp_Mobileconfig cp) db of
        Inl err \<Rightarrow>
          (if isDuplicate err then (Inl (formatErrorDuplicateConfigProfile err cp), db)
           else (Inl err, db))
      | Inr db' \<Rightarrow>
          (Inr \<lparr> cp_ProfileID = macp_auto_increment db, cp_TeamID = cp_TeamID cp,
                 cp_Identifier = cp_Identifier cp, cp_Name = cp_Name cp,
                 cp_Mobileconfig = cp_Mobileconfig cp \<rparr>, db'))"

text \<open>\<open>sqlx.GetContext\<close> scans the first row of the result and returns \<open>sql.ErrNoRows\<close> when
  there is none.\<close>

definition GetMDMAppleConfigProfile ::
  "nat \<Rightarrow> Datastore \<Rightarrow> error + mdm_apple_configuration_profile" where
  "GetMDMAppleConfigProfile profileID db =
     (case filter (\<lambda>r. macp_profile_id r = profileID) (mdm_apple_configuration_profiles db) of
        [] \<Rightarrow> Inl (notFound ''MDMAppleConfigProfile'')
      | res # _ \<Rightarrow> Inr res)"

definition DeleteMDMAppleConfigProfile :: "nat \<Rightarrow> Datastore \<Rightarrow> error option \<times> Datastore" where
  "DeleteMDMAppleConfigProfile profileID db =
     (let rows = mdm_apple_configuration_profiles db;
          deleted = length (filter (\<lambda>r. macp_profile_id r = profileID) rows);
          db' = db \<lparr> mdm_apple_configuration_profiles :=
                       filter (\<lambda>r. \<not> macp_profile_id r = profileID) rows \<rparr>
      in if deleted \<noteq> 1 then (Some (notFound ''MDMAppleConfigProfile''), db') else (None, db'))"

definition DeleteMDMAppleConfigProfileByTeamAndIdentifier ::
  "nat option \<Rightarrow> string \<Rightarrow> Datastore \<Rightarrow> error option \<times> Datastore" where
  "DeleteMDMAppleConfigProfileByTeamAndIdentifier teamID profileIdentifier db =
     (let teamID = (case teamID of None \<Rightarrow> 0 | Some t \<Rightarrow> t);
          rows = mdm_apple_configuration_profiles db;
          deleted = length (filter (\<lambda>r. macp_team_id r = teamID \<and>
                                         macp_identifier r = profileIdentifier) rows);
          db' = db \<lparr> mdm_apple_configuration_profiles :=
                       filter (\<lambda>r. \<not> (macp_team_id r = teamID \<and>
                                         macp_identifier r = profileIdentifier)) rows \<rparr>
      in if deleted = 0 then (Some (notFound ''MDMAppleConfigProfile''), db') else (None, db'))"

definition getMDMAppleConfigProfileByTeamAndIdentifierDB ::
  "nat option \<Rightarrow> string \<Rightarrow> Datastore \<Rightarrow> error + mdm_apple_configuration_profile" where
  "getMDMAppleConfigProfileByTeamAndIdentifierDB teamID profileIdentifier tx =
     (let teamID = (case teamID of None \<Rightarrow> 0 | Some t \<Rightarrow> t) in
      case filter (\<lambda>r. macp_team_id r = teamID \<and> macp_identifier r = profileIdentifier)
             (mdm_apple_configuration_profiles tx) of
        [] \<Rightarrow> Inl (notFound ''MDMAppleConfigProfile'')
      | profile # _ \<Rightarrow> Inr profile)"

subsection \<open>BatchSetMDMAppleProfiles\<close>

text \<open>
  The statement \<open>insertNewOrEditedProfile\<close>:
  \<^verbatim>\<open>INSERT INTO mdm_apple_configuration_profiles (team_id, identifier, name, mobileconfig, checksum)
  VALUES ( ?, ?, ?, ?, UNHEX(MD5(mobileconfig)) )
  ON DUPLICATE KEY UPDATE
    name = VALUES(name), mobileconfig = VALUES(mobileconfig),
    checksum = UNHEX(MD5(VALUES(mobileconfig)))\<close>
  When the new row duplicates an existing row in a unique index, MySQL updates that existing
  row instead of inserting: the row with the same (team_id, identifier) when there is one,
  otherwise the row with the same (team_id, name). The update itself fails with a
  duplicate-entry error when the new name is the name of another row of the team.
\<close>

definition macp_update ::
  "(bytes \<Rightarrow> bytes) \<Rightarrow> nat \<Rightarrow> string \<Rightarrow> bytes \<Rightarrow> mdm_apple_configuration_profile list
     \<Rightarrow> mdm_apple_configuration_profile list" where
  "macp_update md5 profileID nm mc rows =
     map (\<lambda>r. if macp_profile_id r = profileID
               then r \<lparr> macp_name := nm, macp_mobileconfig := mc, macp_checksum := md5 mc \<rparr>
               else r) rows"

definition insertNewOrEditedProfile ::
  "(bytes \<Rightarrow> bytes) \<Rightarrow> nat \<Rightarrow> string \<Rightarrow> string \<Rightarrow> bytes \<Rightarrow> Datastore \<Rightarrow> error + Datastore" where
  "insertNewOrEditedProfile md5 teamID ident nm mc tx =
     (let rows = mdm_apple_configuration_profiles tx in
      case filter (\<lambda>r. macp_team_id r = teamID \<and> macp_identifier r = ident) rows of
        a # _ \<Rightarrow>
          if \<exists>b\<in>set rows. macp_profile_id b \<noteq> macp_profile_id a \<and>
                            macp_team_id b = teamID \<and> macp_name b = nm
          then Inl (ErrDuplicateEntry ''idx_mdm_apple_config_prof_team_name'')
          else Inr (tx \<lparr> mdm_apple_configuration_profiles :=
                           macp_update md5 (macp_profile_id a) nm mc rows \<rparr>)
      | [] \<Rightarrow>
          (case filter (\<lambda>r. macp_team_id r = teamID \<and> macp_name r = nm) rows of
             b # _ \<Rightarrow> Inr (tx \<lparr> mdm_apple_configuration_profiles :=
                                  macp_update md5 (macp_profile_id b) nm mc rows \<rparr>)
           | [] \<Rightarrow> macp_insert md5 teamID ident nm mc tx))"

text \<open>
  \<open>for i, p := range profiles { incomingIdents[i] = p.Identifier;
  incomingProfs[p.Identifier] = p }\<close>: of two profiles with one identifier the map keeps the
  later.
\<close>

definition incomingIdents :: "MDMAppleConfigProfile list \<Rightarrow> string list" where
  "incomingIdents profiles = map cp_Identifier profiles"

definition incomingProfs :: "MDMAppleConfigProfile list \<Rightarrow> (string \<rightharpoonup> MDMAppleConfigProfile)" where
  "incomingProfs profiles = fold (\<lambda>p m. m(cp_Identifier p \<mapsto> p)) profiles Map.empty"

text \<open>
  \<open>for _, p := range incomingProfs\<close>: Go leaves the order in which a map is iterated open,
  so the order is a parameter, the list \<open>order\<close> of the map's keys.
\<close>

fun range_incomingProfs ::
  "(bytes \<Rightarrow> bytes) \<Rightarrow> nat \<Rightarrow> (string \<rightharpoonup> MDMAppleConfigProfile) \<Rightarrow> string list \<Rightarrow> Datastore
     \<Rightarrow> error + Datastore" where
  "range_incomingProfs md5 profTeamID profs [] tx = Inr tx"
| "range_incomingProfs md5 profTeamID profs (k # order) tx =
     (case profs k of
        None \<Rightarrow> range_incomingProfs md5 profTeamID profs order tx
      | Some p \<Rightarrow>
          (case insertNewOrEditedProfile md5 profTeamID (cp_Identifier p) (cp_Name p)
                  (cp_Mobileconfig p) tx of
             Inl err \<Rightarrow> Inl err
           | Inr tx' \<Rightarrow> range_incomingProfs md5 profTeamID profs order tx'))"

text \<open>
  The body of the transaction. \<open>fleetIdents\<close> lists the keys of
  \<open>mobileconfig.FleetPayloadIdentifiers()\<close>, a parameter of the model. \<open>sqlx.In\<close> returns
  an error when the slice bound to \<open>IN (?)\<close> is empty.
\<close>

definition BatchSetMDMAppleProfiles_tx ::
  "(bytes \<Rightarrow> bytes) \<Rightarrow> string list \<Rightarrow> string list \<Rightarrow> nat option \<Rightarrow> MDMAppleConfigProfile list
     \<Rightarrow> Datastore \<Rightarrow> error + Datastore" where
  "BatchSetMDMAppleProfiles_tx md5 fleetIdents order tmID profiles tx =
     (let profTeamID = (case tmID of None \<Rightarrow> 0 | Some t \<Rightarrow> t);
          existingProfiles =
            (if incomingIdents profiles \<noteq> []
             then filter (\<lambda>r. macp_team_id r = profTeamID \<and>
                              macp_identifier r \<in> set (incomingIdents profiles))
                    (mdm_apple_configuration_profiles tx)
             else []);
          keepIdents = map macp_identifier
                         (filter (\<lambda>p. incomingProfs profiles (macp_identifier p) \<noteq> None)
                            existingProfiles)
      in if keepIdents @ fleetIdents = [] then Inl ErrSqlxInEmptySlice
         else range_incomingProfs md5 profTeamID (incomingProfs profiles) order
                (tx \<lparr> mdm_apple_configuration_profiles :=
                        filter (\<lambda>r. \<not> (macp_team_id r = profTeamID \<and>
                                          macp_identifier r \<notin> set (keepIdents @ fleetIdents)))
                          (mdm_apple_configuration_profiles tx) \<rparr>))"

definition BatchSetMDMAppleProfiles ::
  "(bytes \<Rightarrow> bytes) \<Rightarrow> string list \<Rightarrow> string list \<Rightarrow> nat option \<Rightarrow> MDMAppleConfigProfile list
     \<Rightarrow> Datastore \<Rightarrow> error option \<times> Datastore" where
  "BatchSetMDMAppleProfiles md5 fleetIdents order tmID profiles db =
     withRetryTxx (BatchSetMDMAppleProfiles_tx md5 fleetIdents order tmID profiles) db"

subsection \<open>Host profile status rows\<close>

text \<open>
  One row of the multi-row statement of \<open>BulkUpsertMDMAppleHostProfiles\<close>:
  \<^verbatim>\<open>INSERT INTO host_mdm_apple_profiles (profile_id, profile_identifier, profile_name,
    host_uuid, status, operation_type, command_uuid, checksum) VALUES (?, ?, ?, ?, ?, ?, ?, ?)
  ON DUPLICATE KEY UPDATE status = VALUES(status), operation_type = VALUES(operation_type),
    command_uuid = VALUES(command_uuid)\<close>
  The column \<open>detail\<close> of an inserted row is NULL.
\<close>

definition hmap_upsert ::
  "MDMAppleBulkUpsertHostProfilePayload \<Rightarrow> host_mdm_apple_profile list
     \<Rightarrow> host_mdm_apple_profile list" where
  "hmap_upsert p rows =
     (if \<exists>r\<in>set rows. hmap_host_uuid r = bp_HostUUID p \<and> hmap_profile_id r = bp_ProfileID p
      then map (\<lambda>r. if hmap_host_uuid r = bp_HostUUID p \<and> hmap_profile_id r = bp_ProfileID p
                     then r \<lparr> hmap_status := bp_Status p,
                              hmap_operation_type := Some (bp_OperationType p),
                              hmap_command_uuid := bp_CommandUUID p \<rparr>
                     else r) rows
      else rows @ [\<lparr> hmap_profile_id = bp_ProfileID p,
                      hmap_profile_identifier = bp_ProfileIdentifier p,
                      hmap_profile_name = bp_ProfileName p,
                      hmap_host_uuid = bp_HostUUID p,
                      hmap_status = bp_Status p,
                      hmap_operation_type = Some (bp_OperationType p),
                      hmap_detail = None,
                      hmap_command_uuid = bp_CommandUUID p,
                      hmap_checksum = bp_Checksum p \<rparr>])"

definition BulkUpsertMDMAppleHostProfiles ::
  "MDMAppleBulkUpsertHostProfilePayload list \<Rightarrow> Datastore \<Rightarrow> error option \<times> Datastore" where
  "BulkUpsertMDMAppleHostProfiles payload db =
     (if payload = [] then (None, db)
      else (None, db \<lparr> host_mdm_apple_profiles :=
                         fold hmap_upsert payload (host_mdm_apple_profiles db) \<rparr>))"

text \<open>
  \<open>UpdateOrDeleteHostMDMAppleProfile\<close>. The method \<open>IgnoreMDMClientError\<close> of
  \<open>fleet.HostMDMAppleProfile\<close> is a parameter of the model.
\<close>

definition UpdateOrDeleteHostMDMAppleProfile ::
  "(HostMDMAppleProfile \<Rightarrow> bool) \<Rightarrow> HostMDMAppleProfile \<Rightarrow> Datastore
     \<Rightarrow> error option \<times> Datastore" where
  "UpdateOrDeleteHostMDMAppleProfile IgnoreMDMClientError profile db =
     (if hp_OperationType profile = MDMAppleOperationTypeRemove \<and>
         hp_Status profile \<noteq> None \<and>
         (hp_Status profile = Some MDMAppleDeliveryVerifying \<or> IgnoreMDMClientError profile)
      then (None, db \<lparr> host_mdm_apple_profiles :=
                         filter (\<lambda>r. \<not> (hmap_host_uuid r = hp_HostUUID profile \<and>
                                           hmap_command_uuid r = hp_CommandUUID profile))
                           (host_mdm_apple_profiles db) \<rparr>)
      else (None, db \<lparr> host_mdm_apple_profiles :=
                         map (\<lambda>r. if hmap_host_uuid r = hp_HostUUID profile \<and>
                                      hmap_command_uuid r = hp_CommandUUID profile
                                   then r \<lparr> hmap_status := hp_Status profile,
                                            hmap_operation_type := Some (hp_OperationType profile),
                                            hmap_detail := Some (hp_Detail profile) \<rparr>
                                   else r)
                           (host_mdm_apple_profiles db) \<rparr>))"

subsection \<open>Unenrollment and team change\<close>

definition deleteMDMAppleProfilesForHost :: "string \<Rightarrow> Datastore \<Rightarrow> error + Datastore" where
  "deleteMDMAppleProfilesForHost uuid tx =
     Inr (tx \<lparr> host_mdm_apple_profiles :=
                 filter (\<lambda>r. \<not> hmap_host_uuid r = uuid) (host_mdm_apple_profiles tx) \<rparr>)"

text \<open>\<open>row.Scan\<close> reads the first row of \<open>SELECT id FROM hosts WHERE uuid = ?\<close> and returns
  \<open>sql.ErrNoRows\<close> when there is none.\<close>

definition UpdateHostTablesOnMDMUnenroll :: "string \<Rightarrow> Datastore \<Rightarrow> error option \<times> Datastore" where
  "UpdateHostTablesOnMDMUnenroll uuid db =
     withTx (\<lambda>tx.
       case filter (\<lambda>h. h_uuid h = uuid) (hosts tx) of
         [] \<Rightarrow> Inl ErrNoRows
       | h # _ \<Rightarrow>
           (let hostID = h_id h;
                tx1 = tx \<lparr> host_mdm := filter (\<lambda>r. \<not> hmdm_host_id r = hostID) (host_mdm tx) \<rparr>
            in case deleteMDMAppleProfilesForHost uuid tx1 of
                 Inl err \<Rightarrow> Inl err
               | Inr tx2 \<Rightarrow>
                   Inr (tx2 \<lparr> host_disk_encryption_keys :=
                                filter (\<lambda>r. \<not> hdek_host_id r = hostID)
                                  (host_disk_encryption_keys tx2) \<rparr>))) db"

definition bulkDeleteHostDiskEncryptionKeysDB :: "nat list \<Rightarrow> Datastore \<Rightarrow> error + Datastore" where
  "bulkDeleteHostDiskEncryptionKeysDB hostIDs tx =
     (if hostIDs = [] then Inr tx
      else Inr (tx \<lparr> host_disk_encryption_keys :=
                       filter (\<lambda>r. \<not> hdek_host_id r \<in> set hostIDs)
                         (host_disk_encryption_keys tx) \<rparr>))"

text \<open>\<open>FleetFileVaultPayloadIdentifier\<close>, a constant of package mobileconfig, is a parameter
  of the model.\<close>

definition cleanupDiskEncryptionKeysOnTeamChangeDB ::
  "string \<Rightarrow> nat list \<Rightarrow> nat option \<Rightarrow> Datastore \<Rightarrow> error + Datastore" where
  "cleanupDiskEncryptionKeysOnTeamChangeDB FleetFileVaultPayloadIdentifier hostIDs newTeamID tx =
     (case getMDMAppleConfigProfileByTeamAndIdentifierDB newTeamID
             FleetFileVaultPayloadIdentifier tx of
        Inl err \<Rightarrow>
          if IsNotFound err
          then (case bulkDeleteHostDiskEncryptionKeysDB hostIDs tx of
                  Inl err' \<Rightarrow> Inl err'
                | Inr tx' \<Rightarrow> Inr tx')
          else Inl err
      | Inr _ \<Rightarrow> Inr tx)"

definition CleanupDiskEncryptionKeysOnTeamChange ::
  "string \<Rightarrow> nat list \<Rightarrow> nat option \<Rightarrow> Datastore \<Rightarrow> error option \<times> Datastore" where
  "CleanupDiskEncryptionKeysOnTeamChange FleetFileVaultPayloadIdentifier hostIDs newTeamID db =
     withTx (cleanupDiskEncryptionKeysOnTeamChangeDB FleetFileVaultPayloadIdentifier hostIDs
               newTeamID) db"

subsection \<open>BulkSetPendingMDMAppleHostProfiles\<close>

definition sql_in :: "'a option \<Rightarrow> 'a list \<Rightarrow> bool option" where
  "sql_in a xs = (case a of None \<Rightarrow> None | Some x \<Rightarrow> Some (x \<in> set xs))"

definition sql_not :: "bool option \<Rightarrow> bool option" where
  "sql_not c = map_option Not c"

text \<open>
  The host UUIDs the call is about: \<open>hostUUIDs\<close> itself, or the result of the
  \<open>uuidStmt\<close> built for the one selector that has values.
\<close>

definition load_host_uuids ::
  "nat list \<Rightarrow> nat list \<Rightarrow> nat list \<Rightarrow> string list \<Rightarrow> Datastore \<Rightarrow> string list" where
  "load_host_uuids hostIDs teamIDs profileIDs hostUUIDs tx =
     (if hostUUIDs \<noteq> [] then hostUUIDs
      else if hostIDs \<noteq> []
      then map h_uuid (sql_where (\<lambda>h. sql_in (Some (h_id h)) hostIDs) (hosts tx))
      else if teamIDs \<noteq> []
      then (if teamIDs = [0]
            then map h_uuid (sql_where (\<lambda>h. sql_is_null (h_team_id h)) (hosts tx))
            else if 0 \<in> set teamIDs
            then map h_uuid
                   (sql_where (\<lambda>h. sql_or (sql_in (h_team_id h) teamIDs)
                                           (sql_is_null (h_team_id h))) (hosts tx))
            else map h_uuid (sql_where (\<lambda>h. sql_in (h_team_id h) teamIDs) (hosts tx)))
      else remdups
             (map (\<lambda>j. h_uuid (fst j))
                (sql_where (\<lambda>j. sql_in (Some (macp_profile_id (snd j))) profileIDs)
                   (sql_join (\<lambda>h macp. ds_on_hosts macp h) (hosts tx)
                      (mdm_apple_configuration_profiles tx)))))"

text \<open>The subquery \<open>ds\<close> with the further condition \<open>AND h.uuid IN (?)\<close>.\<close>

definition desired_state_in :: "string list \<Rightarrow> Datastore \<Rightarrow> MDMAppleProfilePayload list" where
  "desired_state_in uuids tx =
     map ds_select
       (sql_where (\<lambda>mhn. sql_and (ds_where mhn) (sql_in (Some (h_uuid (snd (fst mhn)))) uuids))
          (sql_join ds_on_enrollments
             (sql_join ds_on_hosts (mdm_apple_configuration_profiles tx) (hosts tx))
             (nano_enrollments tx)))"

text \<open>
  The WHERE clause of \<open>profilesToInstallStmt\<close>:
  \<^verbatim>\<open>( hmap.checksum != ds.checksum ) OR
  ( hmap.profile_id IS NULL AND hmap.host_uuid IS NULL ) OR
  ( hmap.host_uuid IS NOT NULL AND ( hmap.operation_type = ? OR hmap.operation_type IS NULL ) )\<close>
\<close>

definition pending_install_where ::
  "MDMAppleProfilePayload \<times> host_mdm_apple_profile option \<Rightarrow> bool option" where
  "pending_install_where j =
     (let ds = fst j; hmap = snd j in
      sql_or
        (sql_or
           (sql_neq (map_option hmap_checksum hmap) (Some (pp_Checksum ds)))
           (sql_and (sql_is_null (map_option hmap_profile_id hmap))
                    (sql_is_null (map_option hmap_host_uuid hmap))))
        (sql_and (sql_is_not_null (map_option hmap_host_uuid hmap))
                 (sql_or (sql_eq (Option.bind hmap hmap_operation_type)
                                 (Some MDMAppleOperationTypeRemove))
                         (sql_is_null (Option.bind hmap hmap_operation_type)))))"

text \<open>
  The WHERE clause of \<open>profilesToRemoveStmt\<close>:
  \<^verbatim>\<open>hmap.host_uuid IN (?) AND ds.profile_id IS NULL AND ds.uuid IS NULL
  AND ( hmap.operation_type IS NULL OR hmap.operation_type != ? )\<close>
  followed by \<open>AND hmap.profile_identifier NOT IN (?)\<close> when \<open>installIdentifiers\<close> has
  values.
\<close>

definition pending_remove_where ::
  "string list \<Rightarrow> string list \<Rightarrow> MDMAppleProfilePayload option \<times> host_mdm_apple_profile
     \<Rightarrow> bool option" where
  "pending_remove_where uuids installIdentifiers j =
     (let ds = fst j; hmap = snd j;
          c = sql_and
                (sql_and
                   (sql_and (sql_in (Some (hmap_host_uuid hmap)) uuids)
                            (sql_is_null (map_option pp_ProfileID ds)))
                   (sql_is_null (map_option pp_HostUUID ds)))
                (sql_or (sql_is_null (hmap_operation_type hmap))
                        (sql_neq (hmap_operation_type hmap) (Some MDMAppleOperationTypeRemove)))
      in if installIdentifiers \<noteq> []
         then sql_and c (sql_not (sql_in (Some (hmap_profile_identifier hmap)) installIdentifiers))
         else c)"

text \<open>
  One row of the final multi-row statement:
  \<^verbatim>\<open>INSERT INTO host_mdm_apple_profiles (profile_id, host_uuid, profile_identifier,
    profile_name, checksum, operation_type, status, command_uuid) VALUES (?, ?, ?, ?, ?, ?, ?, ?)
  ON DUPLICATE KEY UPDATE operation_type = VALUES(operation_type), status = VALUES(status),
    command_uuid = VALUES(command_uuid), checksum = VALUES(checksum), detail = ''\<close>
  with the values \<open>(p.ProfileID, p.HostUUID, p.ProfileIdentifier, p.ProfileName, p.Checksum,
  operation, nil, "")\<close>.
\<close>

definition hmap_upsert_pending ::
  "MDMAppleOperationType \<Rightarrow> MDMAppleProfilePayload \<Rightarrow> host_mdm_apple_profile list
     \<Rightarrow> host_mdm_apple_profile list" where
  "hmap_upsert_pending operation p rows =
     (if \<exists>r\<in>set rows. hmap_host_uuid r = pp_HostUUID p \<and> hmap_profile_id r = pp_ProfileID p
      then map (\<lambda>r. if hmap_host_uuid r = pp_HostUUID p \<and> hmap_profile_id r = pp_ProfileID p
                     then r \<lparr> hmap_operation_type := Some operation,
                              hmap_status := None,
                              hmap_command_uuid := [],
                              hmap_checksum := pp_Checksum p,
                              hmap_detail := Some [] \<rparr>
                     else r) rows
      else rows @ [\<lparr> hmap_profile_id = pp_ProfileID p,
                      hmap_profile_identifier = pp_ProfileIdentifier p,
                      hmap_profile_name = pp_ProfileName p,
                      hmap_host_uuid = pp_HostUUID p,
                      hmap_status = None,
                      hmap_operation_type = Some operation,
                      hmap_detail = None,
                      hmap_command_uuid = [],
                      hmap_checksum = pp_Checksum p \<rparr>])"

definition BulkSetPendingMDMAppleHostProfiles_tx ::
  "nat list \<Rightarrow> nat list \<Rightarrow> nat list \<Rightarrow> string list \<Rightarrow> Datastore \<Rightarrow> error + Datastore" where
  "BulkSetPendingMDMAppleHostProfiles_tx hostIDs teamIDs profileIDs hostUUIDs tx =
     (let countArgs = (if hostIDs \<noteq> [] then 1 else 0) + (if teamIDs \<noteq> [] then 1 else 0) +
                      (if profileIDs \<noteq> [] then 1 else 0) + (if hostUUIDs \<noteq> [] then 1 else (0::nat))
      in if countArgs > 1
         then Inl (errorString
                     ''only one of hostIDs, teamIDs, profileIDs or hostUUIDs can be provided'')
         else if countArgs = 0 then Inr tx
         else
           (let uuids = load_host_uuids hostIDs teamIDs profileIDs hostUUIDs tx in
            if uuids = [] then Inr tx
            else
              (let profilesToInstall =
                     map fst (sql_where pending_install_where
                                (sql_left_join hmap_on (desired_state_in uuids tx)
                                   (host_mdm_apple_profiles tx)));
                   installIdentifiers = map pp_ProfileIdentifier profilesToInstall;
                   profilesToRemove =
                     map (hmap_select \<circ> snd)
                       (sql_where (pending_remove_where uuids installIdentifiers)
                          (sql_right_join hmap_on (desired_state_in uuids tx)
                             (host_mdm_apple_profiles tx)))
               in if profilesToInstall = [] \<and> profilesToRemove = [] then Inr tx
                  else
                    (let rows = (if profilesToInstall \<noteq> []
                                 then filter (\<lambda>r. (hmap_host_uuid r, hmap_profile_identifier r) \<notin>
                                                  set (map (\<lambda>p. (pp_HostUUID p, pp_ProfileIdentifier p))
                                                         profilesToInstall))
                                        (host_mdm_apple_profiles tx)
                                 else host_mdm_apple_profiles tx)
                     in Inr (tx \<lparr> host_mdm_apple_profiles :=
                                    fold (hmap_upsert_pending MDMAppleOperationTypeRemove)
                                      profilesToRemove
                                      (fold (hmap_upsert_pending MDMAppleOperationTypeInstall)
                                         profilesToInstall rows) \<rparr>)))))"

definition BulkSetPendingMDMAppleHostProfiles ::
  "nat list \<Rightarrow> nat list \<Rightarrow> nat list \<Rightarrow> string list \<Rightarrow> Datastore \<Rightarrow> error option \<times> Datastore" where
  "BulkSetPendingMDMAppleHostProfiles hostIDs teamIDs profileIDs hostUUIDs db =
     withTx (BulkSetPendingMDMAppleHostProfiles_tx hostIDs teamIDs profileIDs hostUUIDs) db"

subsection \<open>Example databases\<close>

text \<open>
  The closed examples below run on these values. \<open>md5_example\<close> stands in for
  \<open>UNHEX(MD5(_))\<close>, and \<open>fleetIdents_example\<close> for the identifiers of the profiles
  Fleet itself manages.
\<close>

definition md5_example :: "bytes \<Rightarrow> bytes" where
  "md5_example mc = ''md5:'' @ mc"

definition fleetIdents_example :: "string list" where
  "fleetIdents_example = [''com.fleetdm.fleetd.config'', ''com.fleetdm.fleet.mdm.filevault'']"

text \<open>
  Host H1 is in no team, H2 in team 1, both darwin and enrolled; H3 is a windows host. H1
  has status rows for profile 1 (of its scope) and for profile 2 (of team 1, which H1 is not
  in); H2 has a row of a pending removal of a profile that no longer exists.
\<close>

definition db_example :: Datastore where
  "db_example =
     \<lparr> hosts =
         [\<lparr> h_id = 1, h_uuid = ''H1'', h_team_id = None, h_platform = ''darwin'' \<rparr>,
          \<lparr> h_id = 2, h_uuid = ''H2'', h_team_id = Some 1, h_platform = ''darwin'' \<rparr>,
          \<lparr> h_id = 3, h_uuid = ''H3'', h_team_id = None, h_platform = ''windows'' \<rparr>],
       nano_enrollments =
         [\<lparr> ne_id = ''H1'', ne_device_id = ''H1'', ne_type = ''Device'', ne_enabled = True \<rparr>,
          \<lparr> ne_id = ''H2'', ne_device_id = ''H2'', ne_type = ''Device'', ne_enabled = True \<rparr>],
       mdm_apple_configuration_profiles =
         [\<lparr> macp_profile_id = 1, macp_team_id = 0, macp_identifier = ''I1'', macp_name = ''N1'',
            macp_mobileconfig = ''a'', macp_checksum = ''ca'' \<rparr>,
          \<lparr> macp_profile_id = 2, macp_team_id = 1, macp_identifier = ''T1'', macp_name = ''TN1'',
            macp_mobileconfig = ''b'', macp_checksum = ''cb'' \<rparr>,
          \<lparr> macp_profile_id = 3, macp_team_id = 0,
            macp_identifier = ''com.fleetdm.fleet.mdm.filevault'',
            macp_name = ''Disk encryption'', macp_mobileconfig = ''f'', macp_checksum = ''cf'' \<rparr>],
       macp_auto_increment = 4,
       host_mdm_apple_profiles =
         [\<lparr> hmap_profile_id = 1, hmap_profile_identifier = ''I1'', hmap_profile_name = ''N1'',
            hmap_host_uuid = ''H1'', hmap_status = Some MDMAppleDeliveryVerifying,
            hmap_operation_type = Some MDMAppleOperationTypeInstall, hmap_detail = None,
            hmap_command_uuid = ''C1'', hmap_checksum = ''ca'' \<rparr>,
          \<lparr> hmap_profile_id = 2, hmap_profile_identifier = ''T1'', hmap_profile_name = ''TN1'',
            hmap_host_uuid = ''H1'', hmap_status = Some MDMAppleDeliveryVerifying,
            hmap_operation_type = Some MDMAppleOperationTypeInstall, hmap_detail = None,
            hmap_command_uuid = ''C2'', hmap_checksum = ''cb'' \<rparr>,
          \<lparr> hmap_profile_id = 9, hmap_profile_identifier = ''G9'', hmap_profile_name = ''GN9'',
            hmap_host_uuid = ''H2'', hmap_status = Some MDMAppleDeliveryPending,
            hmap_operation_type = Some MDMAppleOperationTypeRemove, hmap_detail = None,
            hmap_command_uuid = ''C3'', hmap_checksum = ''c9'' \<rparr>],
       host_disk_encryption_keys =
         [\<lparr> hdek_host_id = 1, hdek_base64_encrypted = ''k1'', hdek_decryptable = Some True \<rparr>,
          \<lparr> hdek_host_id = 2, hdek_base64_encrypted = ''k2'', hdek_decryptable = None \<rparr>],
       host_mdm =
         [\<lparr> hmdm_host_id = 1, hmdm_enrolled = True \<rparr>,
          \<lparr> hmdm_host_id = 2, hmdm_enrolled = True \<rparr>] \<rparr>"

text \<open>One enrolled host in no team, one profile of its scope, and a status row of the pair
  whose \<open>operation_type\<close> is NULL.\<close>

definition db_null_operation :: Datastore where
  "db_null_operation =
     \<lparr> hosts = [\<lparr> h_id = 1, h_uuid = ''H1'', h_team_id = None, h_platform = ''darwin'' \<rparr>],
       nano_enrollments =
         [\<lparr> ne_id = ''H1'', ne_device_id = ''H1'', ne_type = ''Device'', ne_enabled = True \<rparr>],
       mdm_apple_configuration_profiles =
         [\<lparr> macp_profile_id = 1, macp_team_id = 0, macp_identifier = ''I1'', macp_name = ''N1'',
            macp_mobileconfig = ''a'', macp_checksum = ''c1'' \<rparr>],
       macp_auto_increment = 2,
       host_mdm_apple_profiles =
         [\<lparr> hmap_profile_id = 1, hmap_profile_identifier = ''I1'', hmap_profile_name = ''N1'',
            hmap_host_uuid = ''H1'', hmap_status = Some MDMAppleDeliveryPending,
            hmap_operation_type = None, hmap_detail = None, hmap_command_uuid = ''C1'',
            hmap_checksum = ''c1'' \<rparr>],
       host_disk_encryption_keys = [],
       host_mdm = [] \<rparr>"

text \<open>The same host and profile; the profile's payload was edited after it was installed, so
  the status row still holds the checksum of the old payload.\<close>

definition db_stale :: Datastore where
  "db_stale =
     \<lparr> hosts = [\<lparr> h_id = 1, h_uuid = ''H1'', h_team_id = None, h_platform = ''darwin'' \<rparr>],
       nano_enrollments =
         [\<lparr> ne_id = ''H1'', ne_device_id = ''H1'', ne_type = ''Device'', ne_enabled = True \<rparr>],
       mdm_apple_configuration_profiles =
         [\<lparr> macp_profile_id = 1, macp_team_id = 0, macp_identifier = ''I1'', macp_name = ''N1'',
            macp_mobileconfig = ''b'', macp_checksum = ''c2'' \<rparr>],
       macp_auto_increment = 2,
       host_mdm_apple_profiles =
         [\<lparr> hmap_profile_id = 1, hmap_profile_identifier = ''I1'', hmap_profile_name = ''N1'',
            hmap_host_uuid = ''H1'', hmap_status = Some MDMAppleDeliveryVerifying,
            hmap_operation_type = Some MDMAppleOperationTypeInstall, hmap_detail = None,
            hmap_command_uuid = ''C1'', hmap_checksum = ''c1'' \<rparr>],
       host_disk_encryption_keys = [],
       host_mdm = [] \<rparr>"

text \<open>A database whose only profile is I1, named N1, of no team; and a batch that renames I1
  to N2 and adds a profile I2 under the name N1.\<close>

definition db_rename :: "(bytes \<Rightarrow> bytes) \<Rightarrow> Datastore" where
  "db_rename md5 =
     \<lparr> hosts = [], nano_enrollments = [],
       mdm_apple_configuration_profiles =
         [\<lparr> macp_profile_id = 1, macp_team_id = 0, macp_identifier = ''I1'', macp_name = ''N1'',
            macp_mobileconfig = ''a'', macp_checksum = md5 ''a'' \<rparr>],
       macp_auto_increment = 2,
       host_mdm_apple_profiles = [], host_disk_encryption_keys = [], host_mdm = [] \<rparr>"

definition profiles_rename :: "MDMAppleConfigProfile list" where
  "profiles_rename =
     [\<lparr> cp_ProfileID = 0, cp_TeamID = None, cp_Identifier = ''I1'', cp_Name = ''N2'',
        cp_Mobileconfig = ''b'' \<rparr>,
      \<lparr> cp_ProfileID = 0, cp_TeamID = None, cp_Identifier = ''I2'', cp_Name = ''N1'',
        cp_Mobileconfig = ''c'' \<rparr>]"

section \<open>Verification\<close>

subsection \<open>Three-valued conditions and joins as sets\<close>

lemma sql_true_and [simp]: "sql_true (sql_and a b) = (sql_true a \<and> sql_true b)"
  by (cases "(a, b)" rule: sql_and.cases) (simp_all add: sql_true_def)

lemma sql_true_or [simp]: "sql_true (sql_or a b) = (sql_true a \<or> sql_true b)"
  by (cases "(a, b)" rule: sql_or.cases) (simp_all add: sql_true_def)

lemma sql_true_eq [simp]: "sql_true (sql_eq a (Some y)) = (a = Some y)"
  by (auto simp: sql_true_def sql_eq_def split: option.splits)

lemma sql_true_neq [simp]: "sql_true (sql_neq a (Some y)) = (a \<noteq> None \<and> a \<noteq> Some y)"
  by (auto simp: sql_true_def sql_neq_def split: option.splits)

lemma sql_true_is_null [simp]: "sql_true (sql_is_null a) = (a = None)"
  by (simp add: sql_true_def sql_is_null_def)

lemma sql_true_is_not_null [simp]: "sql_true (sql_is_not_null a) = (a \<noteq> None)"
  by (simp add: sql_true_def sql_is_not_null_def)

lemma set_sql_where [simp]: "set (sql_where c rows) = {r \<in> set rows. sql_true (c r)}"
  by (simp add: sql_where_def)

lemma set_sql_join:
  "set (sql_join on as bs) = {(a, b). a \<in> set as \<and> b \<in> set bs \<and> sql_true (on a b)}"
  by (auto simp: sql_join_def)

lemma filter_nil_iff: "filter P xs = [] \<longleftrightarrow> (\<forall>x\<in>set xs. \<not> P x)"
  by (induction xs) auto

lemma filter_cons_mem:
  assumes "filter P xs = y # ys"
  shows "y \<in> set xs \<and> P y"
proof -
  have "y \<in> set (filter P xs)" by (simp add: assms)
  then show ?thesis by simp
qed

text \<open>The rows of a LEFT JOIN: the matching pairs, and the left rows without a match.\<close>

lemma set_sql_left_join:
  "set (sql_left_join on as bs) =
     {(a, Some b) | a b. a \<in> set as \<and> b \<in> set bs \<and> sql_true (on a b)} \<union>
     {(a, None) | a. a \<in> set as \<and> (\<forall>b\<in>set bs. \<not> sql_true (on a b))}"
proof -
  have one: "set (case sql_where (on a) bs of [] \<Rightarrow> [(a, None)] | ms \<Rightarrow> map (\<lambda>b. (a, Some b)) ms) =
      {(a, Some b) | b. b \<in> set bs \<and> sql_true (on a b)} \<union>
      {(a, None) | u::unit. \<forall>b\<in>set bs. \<not> sql_true (on a b)}" for a
  proof (cases "sql_where (on a) bs")
    case Nil
    then have "\<forall>b\<in>set bs. \<not> sql_true (on a b)"
      by (simp add: sql_where_def filter_nil_iff)
    with Nil show ?thesis by auto
  next
    case (Cons m ms)
    then have "m \<in> set bs \<and> sql_true (on a m)"
      unfolding sql_where_def by (rule filter_cons_mem)
    then have ex: "\<exists>b\<in>set bs. sql_true (on a b)" by auto
    have "set (map (\<lambda>b. (a, Some b)) (sql_where (on a) bs)) =
       {(a, Some b) | b. b \<in> set bs \<and> sql_true (on a b)}" by auto
    with Cons ex show ?thesis by auto
  qed
  show ?thesis
    unfolding sql_left_join_def set_concat set_map image_image one by auto
qed

text \<open>The right rows of a RIGHT JOIN that come out with a NULL left side are those without a
  match, each once and in the table's order.\<close>

lemma right_join_unmatched:
  "map snd (filter (\<lambda>j. fst j = None) (sql_right_join on as bs)) =
     filter (\<lambda>b. \<forall>a\<in>set as. \<not> sql_true (on a b)) bs"
proof -
  have one: "map snd (filter (\<lambda>j. fst j = None)
        (case sql_where (\<lambda>a. on a b) as of [] \<Rightarrow> [(None, b)] | ms \<Rightarrow> map (\<lambda>a. (Some a, b)) ms)) =
      (if \<forall>a\<in>set as. \<not> sql_true (on a b) then [b] else [])" for b
  proof (cases "sql_where (\<lambda>a. on a b) as")
    case Nil
    then have "\<forall>a\<in>set as. \<not> sql_true (on a b)"
      by (simp add: sql_where_def filter_nil_iff)
    with Nil show ?thesis by simp
  next
    case (Cons m ms)
    then have "m \<in> set as \<and> sql_true (on m b)"
      unfolding sql_where_def by (rule filter_cons_mem)
    then have ex: "\<exists>a\<in>set as. sql_true (on a b)" by auto
    have "filter (\<lambda>j. fst j = None) (map (\<lambda>a. (Some a, b)) xs) = []" for xs :: "'a list"
      by (induction xs) simp_all
    with Cons ex show ?thesis by auto
  qed
  show ?thesis
    unfolding sql_right_join_def
    by (induction bs) (simp_all add: one)
qed

subsection \<open>The desired state\<close>

lemma ds_rows:
  "set (sql_where ds_where (sql_join ds_on_enrollments (sql_join ds_on_hosts P H) N)) =
     {((p, h), ne). p \<in> set P \<and> h \<in> set H \<and> ne \<in> set N \<and>
        (h_team_id h = Some (macp_team_id p) \<or> h_team_id h = None \<and> macp_team_id p = 0) \<and>
        ne_device_id ne = h_uuid h \<and> h_platform h = ''darwin'' \<and> ne_enabled ne \<and>
        ne_type ne = ''Device''}"
  by (auto simp: set_sql_join ds_where_def ds_on_hosts_def ds_on_enrollments_def)

text \<open>
  A (host, profile) pair is in the desired state exactly when the profile is of the host's
  team, or of team 0 and the host in no team, and the host is a darwin host with an enabled
  enrollment of type Device.
\<close>

lemma desired_state_iff:
  "x \<in> set (desired_state db) \<longleftrightarrow>
     (\<exists>p\<in>set (mdm_apple_configuration_profiles db). \<exists>h\<in>set (hosts db).
        x = \<lparr> pp_ProfileID = macp_profile_id p, pp_ProfileIdentifier = macp_identifier p,
              pp_ProfileName = macp_name p, pp_HostUUID = h_uuid h,
              pp_Checksum = macp_checksum p \<rparr> \<and>
        (h_team_id h = Some (macp_team_id p) \<or> h_team_id h = None \<and> macp_team_id p = 0) \<and>
        h_platform h = ''darwin'' \<and>
        (\<exists>ne\<in>set (nano_enrollments db).
           ne_device_id ne = h_uuid h \<and> ne_enabled ne \<and> ne_type ne = ''Device''))"
  unfolding desired_state_def set_map ds_rows image_iff ds_select_def
  by fastforce

lemma hmap_on_iff [simp]:
  "sql_true (hmap_on d r) \<longleftrightarrow>
     hmap_profile_id r = pp_ProfileID d \<and> hmap_host_uuid r = pp_HostUUID d"
  by (auto simp: hmap_on_def)

lemma unmatched_iff:
  "(\<forall>d\<in>set (desired_state db). \<not> sql_true (hmap_on d r)) \<longleftrightarrow>
      (\<forall>p\<in>set (mdm_apple_configuration_profiles db). \<forall>h\<in>set (hosts db).
          (h_team_id h = Some (macp_team_id p) \<or> h_team_id h = None \<and> macp_team_id p = 0) \<and>
          h_platform h = ''darwin'' \<and>
          (\<exists>ne\<in>set (nano_enrollments db).
             ne_device_id ne = h_uuid h \<and> ne_enabled ne \<and> ne_type ne = ''Device'') \<longrightarrow>
          \<not> (hmap_profile_id r = macp_profile_id p \<and> hmap_host_uuid r = h_uuid h))"
  unfolding hmap_on_iff
proof (intro iffI ballI impI)
  fix p h
  assume all: "\<forall>d\<in>set (desired_state db).
      \<not> (hmap_profile_id r = pp_ProfileID d \<and> hmap_host_uuid r = pp_HostUUID d)"
    and p: "p \<in> set (mdm_apple_configuration_profiles db)" and h: "h \<in> set (hosts db)"
    and des: "(h_team_id h = Some (macp_team_id p) \<or> h_team_id h = None \<and> macp_team_id p = 0) \<and>
        h_platform h = ''darwin'' \<and>
        (\<exists>ne\<in>set (nano_enrollments db).
           ne_device_id ne = h_uuid h \<and> ne_enabled ne \<and> ne_type ne = ''Device'')"
  let ?d = "\<lparr> pp_ProfileID = macp_profile_id p, pp_ProfileIdentifier = macp_identifier p,
            pp_ProfileName = macp_name p, pp_HostUUID = h_uuid h,
            pp_Checksum = macp_checksum p \<rparr>"
  from p h des have "?d \<in> set (desired_state db)"
    unfolding desired_state_iff by blast
  with all have "\<not> (hmap_profile_id r = pp_ProfileID ?d \<and> hmap_host_uuid r = pp_HostUUID ?d)"
    by blast
  then show "\<not> (hmap_profile_id r = macp_profile_id p \<and> hmap_host_uuid r = h_uuid h)"
    by simp
next
  fix d
  assume all: "\<forall>p\<in>set (mdm_apple_configuration_profiles db). \<forall>h\<in>set (hosts db).
        (h_team_id h = Some (macp_team_id p) \<or> h_team_id h = None \<and> macp_team_id p = 0) \<and>
        h_platform h = ''darwin'' \<and>
        (\<exists>ne\<in>set (nano_enrollments db).
           ne_device_id ne = h_uuid h \<and> ne_enabled ne \<and> ne_type ne = ''Device'') \<longrightarrow>
        \<not> (hmap_profile_id r = macp_profile_id p \<and> hmap_host_uuid r = h_uuid h)"
    and d: "d \<in> set (desired_state db)"
  from d obtain p h where "p \<in> set (mdm_apple_configuration_profiles db)" "h \<in> set (hosts db)"
    "d = \<lparr> pp_ProfileID = macp_profile_id p, pp_ProfileIdentifier = macp_identifier p,
            pp_ProfileName = macp_name p, pp_HostUUID = h_uuid h,
            pp_Checksum = macp_checksum p \<rparr>"
    "(h_team_id h = Some (macp_team_id p) \<or> h_team_id h = None \<and> macp_team_id p = 0) \<and>
        h_platform h = ''darwin'' \<and>
        (\<exists>ne\<in>set (nano_enrollments db).
           ne_device_id ne = h_uuid h \<and> ne_enabled ne \<and> ne_type ne = ''Device'')"
    unfolding desired_state_iff by blast
  with all show "\<not> (hmap_profile_id r = pp_ProfileID d \<and> hmap_host_uuid r = pp_HostUUID d)"
    by auto
qed

subsection \<open>Evaluating the examples\<close>

lemmas sql_defs = sql_where_def sql_join_def sql_left_join_def sql_right_join_def sql_true_def
  sql_eq_def sql_neq_def sql_is_null_def sql_is_not_null_def

lemmas list_defs = desired_state_def ds_select_def ds_where_def ds_on_hosts_def
  ds_on_enrollments_def hmap_on_def install_where_def remove_where_def hmap_select_def
  ListMDMAppleProfilesToInstall_def ListMDMAppleProfilesToRemove_def

lemmas batch_defs = BatchSetMDMAppleProfiles_def BatchSetMDMAppleProfiles_tx_def withRetryTxx_def
  withTx_def incomingIdents_def incomingProfs_def insertNewOrEditedProfile_def macp_update_def
  macp_insert_def

subsection \<open>ListMDMAppleProfilesToInstall\<close>

lemma install_where_None [simp]: "sql_true (install_where (d, None))"
  by (simp add: install_where_def)

lemma install_where_Some [simp]:
  "sql_true (install_where (d, Some r)) \<longleftrightarrow>
     hmap_checksum r \<noteq> pp_Checksum d \<or>
     hmap_operation_type r = Some MDMAppleOperationTypeRemove \<or>
     hmap_operation_type r = None \<or>
     (hmap_operation_type r = Some MDMAppleOperationTypeInstall \<and> hmap_status r = None)"
  by (auto simp: install_where_def)

lemma ListMDMAppleProfilesToInstall_set:
  "x \<in> set (ListMDMAppleProfilesToInstall db) \<longleftrightarrow>
     x \<in> set (desired_state db) \<and>
     ((\<forall>r\<in>set (host_mdm_apple_profiles db).
         \<not> (hmap_profile_id r = pp_ProfileID x \<and> hmap_host_uuid r = pp_HostUUID x)) \<or>
      (\<exists>r\<in>set (host_mdm_apple_profiles db).
         hmap_profile_id r = pp_ProfileID x \<and> hmap_host_uuid r = pp_HostUUID x \<and>
         (hmap_checksum r \<noteq> pp_Checksum x \<or>
          hmap_operation_type r = Some MDMAppleOperationTypeRemove \<or>
          hmap_operation_type r = None \<or>
          (hmap_operation_type r = Some MDMAppleOperationTypeInstall \<and> hmap_status r = None))))"
  unfolding ListMDMAppleProfilesToInstall_def
  by (auto simp: set_sql_left_join image_iff)

text \<open>
  Claim C1, as amended. \<open>ListMDMAppleProfilesToInstall\<close> returns the payload of a
  (host, profile) pair if and only if the profile belongs to the host's scope (the host's
  team, or team 0 for a host in no team), the host is a darwin host with an enabled
  enrollment of type Device, and either no status row exists for the pair, or a status row of
  the pair has a checksum other than the profile's, or operation type Remove whatever its
  status, or a NULL operation type whatever its status, or operation type Install and a NULL
  status. The case of the NULL operation type is the one the claim leaves out. In
  particular a pair whose only row has operation Install, a status that is not NULL and the
  profile's checksum is not returned.
\<close>

theorem ListMDMAppleProfilesToInstall_iff:
  "x \<in> set (ListMDMAppleProfilesToInstall db) \<longleftrightarrow>
     (\<exists>p\<in>set (mdm_apple_configuration_profiles db). \<exists>h\<in>set (hosts db).
        x = \<lparr> pp_ProfileID = macp_profile_id p, pp_ProfileIdentifier = macp_identifier p,
              pp_ProfileName = macp_name p, pp_HostUUID = h_uuid h,
              pp_Checksum = macp_checksum p \<rparr> \<and>
        (h_team_id h = Some (macp_team_id p) \<or> h_team_id h = None \<and> macp_team_id p = 0) \<and>
        h_platform h = ''darwin'' \<and>
        (\<exists>ne\<in>set (nano_enrollments db).
           ne_device_id ne = h_uuid h \<and> ne_enabled ne \<and> ne_type ne = ''Device'') \<and>
        ((\<forall>r\<in>set (host_mdm_apple_profiles db).
            \<not> (hmap_profile_id r = macp_profile_id p \<and> hmap_host_uuid r = h_uuid h)) \<or>
         (\<exists>r\<in>set (host_mdm_apple_profiles db).
            hmap_profile_id r = macp_profile_id p \<and> hmap_host_uuid r = h_uuid h \<and>
            (hmap_checksum r \<noteq> macp_checksum p \<or>
             hmap_operation_type r = Some MDMAppleOperationTypeRemove \<or>
             hmap_operation_type r = None \<or>
             (hmap_operation_type r = Some MDMAppleOperationTypeInstall \<and>
              hmap_status r = None)))))"
  (is "?L \<longleftrightarrow> ?R")
proof
  assume ?L
  then show ?R
    unfolding ListMDMAppleProfilesToInstall_set desired_state_iff by fastforce
next
  assume ?R
  then show ?L
    unfolding ListMDMAppleProfilesToInstall_set desired_state_iff by fastforce
qed

text \<open>In the example database the FileVault profile of no team has no status row on H1, so
  the pair is returned; profile 1 is installed on H1 with the current checksum and is not.\<close>

theorem ListMDMAppleProfilesToInstall_iff_witness:
  "\<lparr> pp_ProfileID = 3, pp_ProfileIdentifier = ''com.fleetdm.fleet.mdm.filevault'',
      pp_ProfileName = ''Disk encryption'', pp_HostUUID = ''H1'', pp_Checksum = ''cf'' \<rparr>
     \<in> set (ListMDMAppleProfilesToInstall db_example) \<and>
   \<lparr> pp_ProfileID = 1, pp_ProfileIdentifier = ''I1'', pp_ProfileName = ''N1'',
      pp_HostUUID = ''H1'', pp_Checksum = ''ca'' \<rparr>
     \<notin> set (ListMDMAppleProfilesToInstall db_example)"
  unfolding ListMDMAppleProfilesToInstall_iff
  by (simp add: db_example_def)

text \<open>
  Claim C1 as stated fails on a status row whose operation type is NULL: the row below
  exists for the pair, has the profile's checksum, an operation type that is neither
  Remove nor Install and a status that is not NULL, so none of the cases (a) to (d) holds,
  and the pair is returned all the same.
\<close>

theorem ListMDMAppleProfilesToInstall_null_operation:
  "ListMDMAppleProfilesToInstall db_null_operation =
     [\<lparr> pp_ProfileID = 1, pp_ProfileIdentifier = ''I1'', pp_ProfileName = ''N1'',
        pp_HostUUID = ''H1'', pp_Checksum = ''c1'' \<rparr>] \<and>
   map (\<lambda>r. (hmap_profile_id r, hmap_host_uuid r, hmap_checksum r, hmap_operation_type r,
              hmap_status r)) (host_mdm_apple_profiles db_null_operation) =
     [(1, ''H1'', ''c1'', None, Some MDMAppleDeliveryPending)] \<and>
   map macp_checksum (mdm_apple_configuration_profiles db_null_operation) = [''c1'']"
  by (simp add: db_null_operation_def list_defs sql_defs)

subsection \<open>ListMDMAppleProfilesToRemove\<close>

lemma remove_where_iff [simp]:
  "sql_true (remove_where (d, r)) \<longleftrightarrow>
     d = None \<and>
     \<not> (hmap_operation_type r = Some MDMAppleOperationTypeRemove \<and> hmap_status r \<noteq> None)"
  by (auto simp: remove_where_def)

lemma filter_remove_where:
  "map snd (sql_where remove_where js) =
     filter (\<lambda>r. \<not> (hmap_operation_type r = Some MDMAppleOperationTypeRemove \<and>
                     hmap_status r \<noteq> None))
       (map snd (filter (\<lambda>j. fst j = None) js))"
  by (induction js) (auto simp: sql_where_def)

text \<open>
  Claim C2. \<open>ListMDMAppleProfilesToRemove\<close> returns exactly the status rows (each once, as
  the payload of its columns) whose (host, profile) pair matches no pair of the desired
  state, that is no profile of the scope of an enrolled darwin host with that UUID, and
  that are not rows of operation type Remove with a status that is not NULL. A Remove row
  whose status is NULL passes the second test and is returned again.
\<close>

theorem ListMDMAppleProfilesToRemove_eq:
  "ListMDMAppleProfilesToRemove db =
     map hmap_select
       (filter
          (\<lambda>r. (\<forall>p\<in>set (mdm_apple_configuration_profiles db). \<forall>h\<in>set (hosts db).
                  (h_team_id h = Some (macp_team_id p) \<or>
                   h_team_id h = None \<and> macp_team_id p = 0) \<and>
                  h_platform h = ''darwin'' \<and>
                  (\<exists>ne\<in>set (nano_enrollments db).
                     ne_device_id ne = h_uuid h \<and> ne_enabled ne \<and> ne_type ne = ''Device'') \<longrightarrow>
                  \<not> (hmap_profile_id r = macp_profile_id p \<and> hmap_host_uuid r = h_uuid h)) \<and>
               \<not> (hmap_operation_type r = Some MDMAppleOperationTypeRemove \<and>
                  hmap_status r \<noteq> None))
          (host_mdm_apple_profiles db))"
  unfolding ListMDMAppleProfilesToRemove_def map_map [symmetric] filter_remove_where
    right_join_unmatched filter_filter unmatched_iff
  by (simp add: conj_commute)

text \<open>In the example database the row of profile 2 on H1 matches no desired pair (H1 is not
  in team 1) and is returned; the row of H2 is a Remove row that is already pending and is
  not.\<close>

theorem ListMDMAppleProfilesToRemove_eq_witness:
  "ListMDMAppleProfilesToRemove db_example =
     [\<lparr> pp_ProfileID = 2, pp_ProfileIdentifier = ''T1'', pp_ProfileName = ''TN1'',
        pp_HostUUID = ''H1'', pp_Checksum = ''cb'' \<rparr>]"
  unfolding ListMDMAppleProfilesToRemove_eq
  by (simp add: db_example_def hmap_select_def)

subsection \<open>UpdateOrDeleteHostMDMAppleProfile\<close>

lemma map_if_keeps_key:
  assumes "r \<in> set rows" and "K r" and "K (f r)"
  shows "\<exists>r'\<in>set (map (\<lambda>r. if K r then f r else r) rows). K r'"
proof -
  from assms(1,2) have "f r \<in> set (map (\<lambda>r. if K r then f r else r) rows)"
    by force
  with assms(3) show ?thesis by blast
qed

text \<open>
  Claim C5, as amended. \<open>UpdateOrDeleteHostMDMAppleProfile\<close> never fails. Where a status
  row with the result's host UUID and command UUID exists, no such row is left afterwards if
  and only if the result's operation type is Remove, its status is not nil, and its status
  is Verifying or its error is one \<open>IgnoreMDMClientError\<close> accepts. In every other case
  the rows with that key get the result's status, operation type and detail, and every row
  stays in the table. The claim leaves out that the status must not be nil.
\<close>

theorem UpdateOrDeleteHostMDMAppleProfile_deletes_iff:
  "fst (UpdateOrDeleteHostMDMAppleProfile ign p db) = None \<and>
   ((\<exists>r\<in>set (host_mdm_apple_profiles db).
        hmap_host_uuid r = hp_HostUUID p \<and> hmap_command_uuid r = hp_CommandUUID p) \<longrightarrow>
    ((\<forall>r\<in>set (host_mdm_apple_profiles (snd (UpdateOrDeleteHostMDMAppleProfile ign p db))).
         \<not> (hmap_host_uuid r = hp_HostUUID p \<and> hmap_command_uuid r = hp_CommandUUID p)) \<longleftrightarrow>
     hp_OperationType p = MDMAppleOperationTypeRemove \<and> hp_Status p \<noteq> None \<and>
     (hp_Status p = Some MDMAppleDeliveryVerifying \<or> ign p))) \<and>
   (hp_OperationType p = MDMAppleOperationTypeRemove \<and> hp_Status p \<noteq> None \<and>
    (hp_Status p = Some MDMAppleDeliveryVerifying \<or> ign p) \<longrightarrow>
    host_mdm_apple_profiles (snd (UpdateOrDeleteHostMDMAppleProfile ign p db)) =
      filter (\<lambda>r. \<not> (hmap_host_uuid r = hp_HostUUID p \<and> hmap_command_uuid r = hp_CommandUUID p))
        (host_mdm_apple_profiles db)) \<and>
   (\<not> (hp_OperationType p = MDMAppleOperationTypeRemove \<and> hp_Status p \<noteq> None \<and>
        (hp_Status p = Some MDMAppleDeliveryVerifying \<or> ign p)) \<longrightarrow>
    host_mdm_apple_profiles (snd (UpdateOrDeleteHostMDMAppleProfile ign p db)) =
      map (\<lambda>r. if hmap_host_uuid r = hp_HostUUID p \<and> hmap_command_uuid r = hp_CommandUUID p
                then r \<lparr> hmap_status := hp_Status p,
                         hmap_operation_type := Some (hp_OperationType p),
                         hmap_detail := Some (hp_Detail p) \<rparr>
                else r) (host_mdm_apple_profiles db))"
proof (cases "hp_OperationType p = MDMAppleOperationTypeRemove \<and> hp_Status p \<noteq> None \<and>
    (hp_Status p = Some MDMAppleDeliveryVerifying \<or> ign p)")
  case True
  then have res: "UpdateOrDeleteHostMDMAppleProfile ign p db =
      (None, db \<lparr> host_mdm_apple_profiles :=
         filter (\<lambda>r. \<not> (hmap_host_uuid r = hp_HostUUID p \<and>
                           hmap_command_uuid r = hp_CommandUUID p))
           (host_mdm_apple_profiles db) \<rparr>)"
    unfolding UpdateOrDeleteHostMDMAppleProfile_def by (rule if_P)
  from True show ?thesis
    unfolding res by simp
next
  case False
  then have res: "UpdateOrDeleteHostMDMAppleProfile ign p db =
      (None, db \<lparr> host_mdm_apple_profiles :=
         map (\<lambda>r. if hmap_host_uuid r = hp_HostUUID p \<and> hmap_command_uuid r = hp_CommandUUID p
                   then r \<lparr> hmap_status := hp_Status p,
                            hmap_operation_type := Some (hp_OperationType p),
                            hmap_detail := Some (hp_Detail p) \<rparr>
                   else r) (host_mdm_apple_profiles db) \<rparr>)"
    unfolding UpdateOrDeleteHostMDMAppleProfile_def by (rule if_not_P)
  have kept: "\<not> (\<forall>r\<in>set (map (\<lambda>r. if hmap_host_uuid r = hp_HostUUID p \<and>
                                  hmap_command_uuid r = hp_CommandUUID p
                               then r \<lparr> hmap_status := hp_Status p,
                                        hmap_operation_type := Some (hp_OperationType p),
                                        hmap_detail := Some (hp_Detail p) \<rparr>
                               else r) (host_mdm_apple_profiles db)).
          \<not> (hmap_host_uuid r = hp_HostUUID p \<and> hmap_command_uuid r = hp_CommandUUID p))"
    if "\<exists>r\<in>set (host_mdm_apple_profiles db).
        hmap_host_uuid r = hp_HostUUID p \<and> hmap_command_uuid r = hp_CommandUUID p"
  proof -
    from that obtain r where r: "r \<in> set (host_mdm_apple_profiles db)"
      "hmap_host_uuid r = hp_HostUUID p \<and> hmap_command_uuid r = hp_CommandUUID p"
      by blast
    have "\<exists>r'\<in>set (map (\<lambda>r. if hmap_host_uuid r = hp_HostUUID p \<and>
                                  hmap_command_uuid r = hp_CommandUUID p
                               then r \<lparr> hmap_status := hp_Status p,
                                        hmap_operation_type := Some (hp_OperationType p),
                                        hmap_detail := Some (hp_Detail p) \<rparr>
                               else r) (host_mdm_apple_profiles db)).
            hmap_host_uuid r' = hp_HostUUID p \<and> hmap_command_uuid r' = hp_CommandUUID p"
      using r map_if_keeps_key [of r "host_mdm_apple_profiles db"
          "\<lambda>r. hmap_host_uuid r = hp_HostUUID p \<and> hmap_command_uuid r = hp_CommandUUID p"
          "\<lambda>r. r \<lparr> hmap_status := hp_Status p,
                   hmap_operation_type := Some (hp_OperationType p),
                   hmap_detail := Some (hp_Detail p) \<rparr>"]
      by simp
    then show ?thesis by blast
  qed
  from False kept show ?thesis
    unfolding res by auto
qed

text \<open>On the example database: the acknowledged removal of command C2 deletes its row, and
  the failed install of command C1 updates its row in place.\<close>

theorem UpdateOrDeleteHostMDMAppleProfile_deletes_iff_witness:
  "map hmap_command_uuid
     (host_mdm_apple_profiles
        (snd (UpdateOrDeleteHostMDMAppleProfile (\<lambda>p. False)
           \<lparr> hp_HostUUID = ''H1'', hp_CommandUUID = ''C2'', hp_ProfileID = 2, hp_Name = ''TN1'',
              hp_Identifier = ''T1'', hp_Status = Some MDMAppleDeliveryVerifying,
              hp_OperationType = MDMAppleOperationTypeRemove, hp_Detail = [] \<rparr> db_example))) =
     [''C1'', ''C3''] \<and>
   map (\<lambda>r. (hmap_command_uuid r, hmap_status r, hmap_operation_type r, hmap_detail r))
     (host_mdm_apple_profiles
        (snd (UpdateOrDeleteHostMDMAppleProfile (\<lambda>p. False)
           \<lparr> hp_HostUUID = ''H1'', hp_CommandUUID = ''C1'', hp_ProfileID = 1, hp_Name = ''N1'',
              hp_Identifier = ''I1'', hp_Status = Some MDMAppleDeliveryFailed,
              hp_OperationType = MDMAppleOperationTypeInstall,
              hp_Detail = ''Unknown command'' \<rparr> db_example))) =
     [(''C1'', Some MDMAppleDeliveryFailed, Some MDMAppleOperationTypeInstall,
       Some ''Unknown command''),
      (''C2'', Some MDMAppleDeliveryVerifying, Some MDMAppleOperationTypeInstall, None),
      (''C3'', Some MDMAppleDeliveryPending, Some MDMAppleOperationTypeRemove, None)]"
proof -
  let ?ign = "\<lambda>p::HostMDMAppleProfile. False"
  let ?ack = "\<lparr> hp_HostUUID = ''H1'', hp_CommandUUID = ''C2'', hp_ProfileID = 2, hp_Name = ''TN1'',
      hp_Identifier = ''T1'', hp_Status = Some MDMAppleDeliveryVerifying,
      hp_OperationType = MDMAppleOperationTypeRemove, hp_Detail = [] \<rparr>"
  let ?err = "\<lparr> hp_HostUUID = ''H1'', hp_CommandUUID = ''C1'', hp_ProfileID = 1, hp_Name = ''N1'',
      hp_Identifier = ''I1'', hp_Status = Some MDMAppleDeliveryFailed,
      hp_OperationType = MDMAppleOperationTypeInstall, hp_Detail = ''Unknown command'' \<rparr>"
  have ack: "hp_OperationType ?ack = MDMAppleOperationTypeRemove \<and> hp_Status ?ack \<noteq> None \<and>
      (hp_Status ?ack = Some MDMAppleDeliveryVerifying \<or> ?ign ?ack)"
    by simp
  have err: "\<not> (hp_OperationType ?err = MDMAppleOperationTypeRemove \<and> hp_Status ?err \<noteq> None \<and>
      (hp_Status ?err = Some MDMAppleDeliveryVerifying \<or> ?ign ?err))"
    by simp
  note del = UpdateOrDeleteHostMDMAppleProfile_deletes_iff
    [of ?ign ?ack db_example, THEN conjunct2, THEN conjunct2, THEN conjunct1, THEN mp, OF ack]
  note upd = UpdateOrDeleteHostMDMAppleProfile_deletes_iff
    [of ?ign ?err db_example, THEN conjunct2, THEN conjunct2, THEN conjunct2, THEN mp, OF err]
  show ?thesis
    unfolding del upd by (simp add: db_example_def)
qed

text \<open>
  Claim C5 as stated fails on a result with operation type Remove, a nil status and an
  error that \<open>IgnoreMDMClientError\<close> accepts (here: every result whose detail reports
  \<open>MDMClientError (89)\<close>): the row of command C3 is updated and stays in the table.
\<close>

theorem UpdateOrDeleteHostMDMAppleProfile_nil_status:
  "map (\<lambda>r. (hmap_command_uuid r, hmap_status r, hmap_operation_type r, hmap_detail r))
     (host_mdm_apple_profiles
        (snd (UpdateOrDeleteHostMDMAppleProfile (\<lambda>p. hp_Detail p = ''MDMClientError (89)'')
           \<lparr> hp_HostUUID = ''H2'', hp_CommandUUID = ''C3'', hp_ProfileID = 9, hp_Name = ''GN9'',
              hp_Identifier = ''G9'', hp_Status = None,
              hp_OperationType = MDMAppleOperationTypeRemove,
              hp_Detail = ''MDMClientError (89)'' \<rparr> db_example))) =
     [(''C1'', Some MDMAppleDeliveryVerifying, Some MDMAppleOperationTypeInstall, None),
      (''C2'', Some MDMAppleDeliveryVerifying, Some MDMAppleOperationTypeInstall, None),
      (''C3'', None, Some MDMAppleOperationTypeRemove, Some ''MDMClientError (89)'')]"
  by (simp add: UpdateOrDeleteHostMDMAppleProfile_def db_example_def)

subsection \<open>UpdateHostTablesOnMDMUnenroll\<close>

text \<open>
  Claim C6. For every host that its UUID identifies (no host with another id has the same
  UUID), \<open>UpdateHostTablesOnMDMUnenroll\<close> succeeds, and in the database it commits no row of
  \<open>host_mdm_apple_profiles\<close> has the host's UUID and no row of
  \<open>host_disk_encryption_keys\<close> or of \<open>host_mdm\<close> has the host's id: the deletions are all
  in the one state the call returns. The call fails only when no host has the UUID, and
  then it leaves the database as it was.
\<close>

theorem UpdateHostTablesOnMDMUnenroll_deletes:
  "(\<forall>h\<in>set (hosts db).
      h_uuid h = uuid \<and> (\<forall>h'\<in>set (hosts db). h_uuid h' = uuid \<longrightarrow> h_id h' = h_id h) \<longrightarrow>
      fst (UpdateHostTablesOnMDMUnenroll uuid db) = None \<and>
      (\<forall>r\<in>set (host_mdm_apple_profiles (snd (UpdateHostTablesOnMDMUnenroll uuid db))).
         hmap_host_uuid r \<noteq> uuid) \<and>
      (\<forall>k\<in>set (host_disk_encryption_keys (snd (UpdateHostTablesOnMDMUnenroll uuid db))).
         hdek_host_id k \<noteq> h_id h) \<and>
      (\<forall>m\<in>set (host_mdm (snd (UpdateHostTablesOnMDMUnenroll uuid db))).
         hmdm_host_id m \<noteq> h_id h)) \<and>
   (fst (UpdateHostTablesOnMDMUnenroll uuid db) \<noteq> None \<longrightarrow>
      snd (UpdateHostTablesOnMDMUnenroll uuid db) = db \<and>
      (\<forall>h\<in>set (hosts db). h_uuid h \<noteq> uuid))"
proof (cases "filter (\<lambda>h. h_uuid h = uuid) (hosts db)")
  case Nil
  then have none: "\<forall>h\<in>set (hosts db). h_uuid h \<noteq> uuid"
    by (simp add: filter_nil_iff)
  have "UpdateHostTablesOnMDMUnenroll uuid db = (Some ErrNoRows, db)"
    using Nil by (simp add: UpdateHostTablesOnMDMUnenroll_def withTx_def)
  with none show ?thesis by simp
next
  case (Cons h0 hs)
  then have h0: "h0 \<in> set (hosts db) \<and> h_uuid h0 = uuid"
    by (rule filter_cons_mem)
  have res: "UpdateHostTablesOnMDMUnenroll uuid db =
      (None, db \<lparr> host_mdm := filter (\<lambda>r. \<not> hmdm_host_id r = h_id h0) (host_mdm db),
                  host_mdm_apple_profiles :=
                    filter (\<lambda>r. \<not> hmap_host_uuid r = uuid) (host_mdm_apple_profiles db),
                  host_disk_encryption_keys :=
                    filter (\<lambda>r. \<not> hdek_host_id r = h_id h0) (host_disk_encryption_keys db) \<rparr>)"
    using Cons
    by (simp add: UpdateHostTablesOnMDMUnenroll_def withTx_def deleteMDMAppleProfilesForHost_def
        Let_def)
  show ?thesis
  proof (rule conjI)
    show "\<forall>h\<in>set (hosts db).
      h_uuid h = uuid \<and> (\<forall>h'\<in>set (hosts db). h_uuid h' = uuid \<longrightarrow> h_id h' = h_id h) \<longrightarrow>
      fst (UpdateHostTablesOnMDMUnenroll uuid db) = None \<and>
      (\<forall>r\<in>set (host_mdm_apple_profiles (snd (UpdateHostTablesOnMDMUnenroll uuid db))).
         hmap_host_uuid r \<noteq> uuid) \<and>
      (\<forall>k\<in>set (host_disk_encryption_keys (snd (UpdateHostTablesOnMDMUnenroll uuid db))).
         hdek_host_id k \<noteq> h_id h) \<and>
      (\<forall>m\<in>set (host_mdm (snd (UpdateHostTablesOnMDMUnenroll uuid db))).
         hmdm_host_id m \<noteq> h_id h)"
    proof (intro ballI impI)
      fix h
      assume "h \<in> set (hosts db)"
        and "h_uuid h = uuid \<and> (\<forall>h'\<in>set (hosts db). h_uuid h' = uuid \<longrightarrow> h_id h' = h_id h)"
      with h0 have same: "h_id h0 = h_id h" by blast
      show "fst (UpdateHostTablesOnMDMUnenroll uuid db) = None \<and>
        (\<forall>r\<in>set (host_mdm_apple_profiles (snd (UpdateHostTablesOnMDMUnenroll uuid db))).
           hmap_host_uuid r \<noteq> uuid) \<and>
        (\<forall>k\<in>set (host_disk_encryption_keys (snd (UpdateHostTablesOnMDMUnenroll uuid db))).
           hdek_host_id k \<noteq> h_id h) \<and>
        (\<forall>m\<in>set (host_mdm (snd (UpdateHostTablesOnMDMUnenroll uuid db))).
           hmdm_host_id m \<noteq> h_id h)"
        unfolding res same by simp
    qed
  next
    show "fst (UpdateHostTablesOnMDMUnenroll uuid db) \<noteq> None \<longrightarrow>
      snd (UpdateHostTablesOnMDMUnenroll uuid db) = db \<and>
      (\<forall>h\<in>set (hosts db). h_uuid h \<noteq> uuid)"
      unfolding res by simp
  qed
qed

text \<open>Unenrolling H1 in the example database leaves the status row of H2, the key of host 2
  and the \<open>host_mdm\<close> row of host 2.\<close>

theorem UpdateHostTablesOnMDMUnenroll_deletes_witness:
  "fst (UpdateHostTablesOnMDMUnenroll ''H1'' db_example) = None \<and>
   map hmap_host_uuid
     (host_mdm_apple_profiles (snd (UpdateHostTablesOnMDMUnenroll ''H1'' db_example))) = [''H2''] \<and>
   map hdek_host_id
     (host_disk_encryption_keys (snd (UpdateHostTablesOnMDMUnenroll ''H1'' db_example))) = [2] \<and>
   map hmdm_host_id (host_mdm (snd (UpdateHostTablesOnMDMUnenroll ''H1'' db_example))) = [2]"
proof -
  let ?h = "\<lparr> h_id = 1, h_uuid = ''H1'', h_team_id = None, h_platform = ''darwin'' \<rparr>"
  have mem: "?h \<in> set (hosts db_example)"
    by (simp add: db_example_def)
  have ident: "h_uuid ?h = ''H1'' \<and>
      (\<forall>h'\<in>set (hosts db_example). h_uuid h' = ''H1'' \<longrightarrow> h_id h' = h_id ?h)"
    by (simp add: db_example_def)
  note gone = UpdateHostTablesOnMDMUnenroll_deletes
    [of db_example "''H1''", THEN conjunct1, THEN bspec, OF mem, THEN mp, OF ident]
  have rows: "map hmap_host_uuid
     (host_mdm_apple_profiles (snd (UpdateHostTablesOnMDMUnenroll ''H1'' db_example))) = [''H2''] \<and>
   map hdek_host_id
     (host_disk_encryption_keys (snd (UpdateHostTablesOnMDMUnenroll ''H1'' db_example))) = [2] \<and>
   map hmdm_host_id (host_mdm (snd (UpdateHostTablesOnMDMUnenroll ''H1'' db_example))) = [2]"
    by (simp add: db_example_def UpdateHostTablesOnMDMUnenroll_def withTx_def
        deleteMDMAppleProfilesForHost_def)
  from gone [THEN conjunct1] rows show ?thesis by (rule conjI)
qed

subsection \<open>CleanupDiskEncryptionKeysOnTeamChange\<close>

text \<open>
  Claim C7. \<open>CleanupDiskEncryptionKeysOnTeamChange\<close> succeeds. When no profile of the
  destination scope (team 0 for a nil team) has the FileVault identifier, the database it
  leaves is the one it found without the key rows of the hosts in \<open>hostIDs\<close>; when such a
  profile exists, it leaves the database as it found it, every key row included.
\<close>

theorem CleanupDiskEncryptionKeysOnTeamChange_iff:
  "fst (CleanupDiskEncryptionKeysOnTeamChange fv hostIDs newTeamID db) = None \<and>
   ((\<forall>p\<in>set (mdm_apple_configuration_profiles db).
        \<not> (macp_team_id p = (case newTeamID of None \<Rightarrow> 0 | Some t \<Rightarrow> t) \<and>
           macp_identifier p = fv)) \<longrightarrow>
      snd (CleanupDiskEncryptionKeysOnTeamChange fv hostIDs newTeamID db) =
        db \<lparr> host_disk_encryption_keys :=
               filter (\<lambda>k. hdek_host_id k \<notin> set hostIDs) (host_disk_encryption_keys db) \<rparr>) \<and>
   ((\<exists>p\<in>set (mdm_apple_configuration_profiles db).
        macp_team_id p = (case newTeamID of None \<Rightarrow> 0 | Some t \<Rightarrow> t) \<and>
        macp_identifier p = fv) \<longrightarrow>
      snd (CleanupDiskEncryptionKeysOnTeamChange fv hostIDs newTeamID db) = db)"
proof -
  let ?t = "case newTeamID of None \<Rightarrow> 0 | Some t \<Rightarrow> t"
  let ?ms = "filter (\<lambda>r. macp_team_id r = ?t \<and> macp_identifier r = fv)
               (mdm_apple_configuration_profiles db)"
  show ?thesis
  proof (cases ?ms)
    case Nil
    then have none: "\<forall>p\<in>set (mdm_apple_configuration_profiles db).
        \<not> (macp_team_id p = ?t \<and> macp_identifier p = fv)"
      by (simp add: filter_nil_iff)
    have "cleanupDiskEncryptionKeysOnTeamChangeDB fv hostIDs newTeamID db =
        Inr (db \<lparr> host_disk_encryption_keys :=
               filter (\<lambda>k. hdek_host_id k \<notin> set hostIDs) (host_disk_encryption_keys db) \<rparr>)"
      using Nil
      by (simp add: cleanupDiskEncryptionKeysOnTeamChangeDB_def
          getMDMAppleConfigProfileByTeamAndIdentifierDB_def IsNotFound_def notFound_def
          bulkDeleteHostDiskEncryptionKeysDB_def)
    with none show ?thesis
      by (auto simp: CleanupDiskEncryptionKeysOnTeamChange_def withTx_def)
  next
    case (Cons m ms)
    then have "m \<in> set (mdm_apple_configuration_profiles db) \<and>
        (macp_team_id m = ?t \<and> macp_identifier m = fv)"
      by (rule filter_cons_mem)
    then have some: "\<exists>p\<in>set (mdm_apple_configuration_profiles db).
        macp_team_id p = ?t \<and> macp_identifier p = fv" by auto
    have "cleanupDiskEncryptionKeysOnTeamChangeDB fv hostIDs newTeamID db = Inr db"
      using Cons
      by (simp add: cleanupDiskEncryptionKeysOnTeamChangeDB_def
          getMDMAppleConfigProfileByTeamAndIdentifierDB_def)
    with some show ?thesis
      by (auto simp: CleanupDiskEncryptionKeysOnTeamChange_def withTx_def)
  qed
qed

text \<open>In the example database team 1 has no FileVault profile, so moving hosts 1 and 3 there
  deletes the key of host 1; no team has one, so moving host 2 there keeps both keys.\<close>

theorem CleanupDiskEncryptionKeysOnTeamChange_iff_witness:
  "map hdek_host_id
     (host_disk_encryption_keys
        (snd (CleanupDiskEncryptionKeysOnTeamChange ''com.fleetdm.fleet.mdm.filevault'' [1, 3]
                (Some 1) db_example))) = [2] \<and>
   snd (CleanupDiskEncryptionKeysOnTeamChange ''com.fleetdm.fleet.mdm.filevault'' [2] None
          db_example) = db_example"
  using
    CleanupDiskEncryptionKeysOnTeamChange_iff [of "''com.fleetdm.fleet.mdm.filevault''"
      "[1, 3]" "Some 1" db_example]
    CleanupDiskEncryptionKeysOnTeamChange_iff [of "''com.fleetdm.fleet.mdm.filevault''"
      "[2]" None db_example]
  by (simp add: db_example_def)

subsection \<open>BulkSetPendingMDMAppleHostProfiles\<close>

text \<open>
  Claim C10. When two or more of \<open>hostIDs\<close>, \<open>teamIDs\<close>, \<open>profileIDs\<close> and \<open>hostUUIDs\<close>
  have values, \<open>BulkSetPendingMDMAppleHostProfiles\<close> returns the error "only one of
  hostIDs, teamIDs, profileIDs or hostUUIDs can be provided" and leaves the database, its
  status rows included, as it was; when all four are empty it returns nil and leaves the
  database as it was.
\<close>

theorem BulkSetPendingMDMAppleHostProfiles_selectors:
  "(2 \<le> length (filter (\<lambda>b. b)
            [hostIDs \<noteq> [], teamIDs \<noteq> [], profileIDs \<noteq> [], hostUUIDs \<noteq> []]) \<longrightarrow>
      BulkSetPendingMDMAppleHostProfiles hostIDs teamIDs profileIDs hostUUIDs db =
        (Some (errorString
           ''only one of hostIDs, teamIDs, profileIDs or hostUUIDs can be provided''), db)) \<and>
   (hostIDs = [] \<and> teamIDs = [] \<and> profileIDs = [] \<and> hostUUIDs = [] \<longrightarrow>
      BulkSetPendingMDMAppleHostProfiles hostIDs teamIDs profileIDs hostUUIDs db = (None, db))"
  by (simp add: BulkSetPendingMDMAppleHostProfiles_def BulkSetPendingMDMAppleHostProfiles_tx_def
      withTx_def)

theorem BulkSetPendingMDMAppleHostProfiles_selectors_witness:
  "BulkSetPendingMDMAppleHostProfiles [1] [] [3] [] db_example =
     (Some (errorString
        ''only one of hostIDs, teamIDs, profileIDs or hostUUIDs can be provided''), db_example) \<and>
   BulkSetPendingMDMAppleHostProfiles [] [] [] [] db_example = (None, db_example)"
  using BulkSetPendingMDMAppleHostProfiles_selectors [of "[1]" "[]" "[3]" "[]" db_example]
    BulkSetPendingMDMAppleHostProfiles_selectors [of "[]" "[]" "[]" "[]" db_example]
  by simp

end
